theory Spec2Isabelle
  imports Complex_Main "HOL-Library.AList"
begin

section \<open>Errors and results\<close>

text \<open>
  Every exception the modelled Python can raise is a value; a computation that may raise
  returns \<open>error + 'a\<close> with \<open>Inl\<close> for the exception. \<open>bindE\<close> sequences two such
  computations: the first exception ends the run, as it does in Python.
\<close>

datatype error =
  AssertionError | AttributeError | IndexError | RuntimeError | ValueError | ZeroDivisionError

definition bindE :: "error + 'a \<Rightarrow> ('a \<Rightarrow> error + 'b) \<Rightarrow> error + 'b" where
  "bindE r f = (case r of Inl e \<Rightarrow> Inl e | Inr v \<Rightarrow> f v)"

section \<open>The tensor library, as far as the models use it\<close>

text \<open>
  All tensors of the network are 4D: \<open>(N, C, H, W)\<close>. The shape of a tensor is a quadruple of
  naturals; the Python integers that configure channel counts are \<open>int\<close>, since the
  constructors compute them by subtraction and floor division.
\<close>

type_synonym shape = "nat \<times> nat \<times> nat \<times> nat"

definition spatial :: "shape \<Rightarrow> nat \<times> nat" where
  "spatial s = (case s of (n, c, h, w) \<Rightarrow> (h, w))"

definition width :: "shape \<Rightarrow> nat" where
  "width s = (case s of (n, c, h, w) \<Rightarrow> w)"

record Conv2d =
  in_channels :: int
  out_channels :: int
  kernel_size :: nat
  stride :: nat
  padding :: nat
  dilation :: nat
  bias :: bool

record BatchNorm2d =
  num_features :: int
  training :: bool

record AvgPool2d =
  pool_kernel_size :: "nat \<times> nat"
  pool_stride :: "nat \<times> nat"

datatype layer = Conv2dL Conv2d | BatchNorm2dL BatchNorm2d | ReLUL

text \<open>
  \<open>torch.nn.Conv2d(in, out, ...)\<close> and \<open>torch.nn.BatchNorm2d(n)\<close> allocate parameter
  tensors whose sizes are the channel counts; a negative count cannot be allocated and the
  constructor raises. A module is in training mode when it is constructed, and nothing in
  the source takes it out of that mode.
\<close>

definition Conv2d_init :: "int \<Rightarrow> int \<Rightarrow> nat \<Rightarrow> nat \<Rightarrow> nat \<Rightarrow> nat \<Rightarrow> bool \<Rightarrow> error + Conv2d" where
  "Conv2d_init in_ch out_ch k s p d b =
     (if in_ch < 0 \<or> out_ch < 0 then Inl RuntimeError
      else Inr \<lparr>in_channels = in_ch, out_channels = out_ch, kernel_size = k, stride = s,
                padding = p, dilation = d, bias = b\<rparr>)"

definition BatchNorm2d_init :: "int \<Rightarrow> error + BatchNorm2d" where
  "BatchNorm2d_init n =
     (if n < 0 then Inl RuntimeError else Inr \<lparr>num_features = n, training = True\<rparr>)"

text \<open>
  The forward functions below are written once, against the operations of the tensor library
  they call. The record \<open>'a torch\<close> collects these operations for a tensor representation
  \<open>'a\<close>; \<open>tensor_shape\<close> is \<open>x.shape\<close>.
\<close>

record 'a torch =
  tensor_shape :: "'a \<Rightarrow> shape"
  Conv2d_forward :: "Conv2d \<Rightarrow> 'a \<Rightarrow> error + 'a"
  BatchNorm2d_forward :: "BatchNorm2d \<Rightarrow> 'a \<Rightarrow> error + 'a"
  ReLU_forward :: "'a \<Rightarrow> error + 'a"
  AvgPool2d_forward :: "AvgPool2d \<Rightarrow> 'a \<Rightarrow> error + 'a"
  F_interpolate :: "'a \<Rightarrow> nat \<times> nat \<Rightarrow> error + 'a"
  torch_cat :: "'a list \<Rightarrow> error + 'a"
  torch_add :: "'a \<Rightarrow> 'a \<Rightarrow> error + 'a"

definition layer_forward :: "'a torch \<Rightarrow> layer \<Rightarrow> 'a \<Rightarrow> error + 'a" where
  "layer_forward T l x =
     (case l of
        Conv2dL c \<Rightarrow> Conv2d_forward T c x
      | BatchNorm2dL b \<Rightarrow> BatchNorm2d_forward T b x
      | ReLUL \<Rightarrow> ReLU_forward T x)"

text \<open>\<open>torch.nn.Sequential\<close>: the layers in order, each on the output of the one before.\<close>

fun Sequential_forward :: "'a torch \<Rightarrow> layer list \<Rightarrow> 'a \<Rightarrow> error + 'a" where
  "Sequential_forward T [] x = Inr x"
| "Sequential_forward T (l # ls) x = bindE (layer_forward T l x) (Sequential_forward T ls)"

subsection \<open>The shape contract of the library\<close>

text \<open>
  The library's operations on shapes alone. A convolution wants its configured number of
  input channels and a padded input at least as large as the dilated kernel; its output
  size is the library's \<open>floor((H + 2p - d(k-1) - 1) / s) + 1\<close>.
\<close>

definition conv2d_shape :: "Conv2d \<Rightarrow> shape \<Rightarrow> error + shape" where
  "conv2d_shape c s =
     (case s of (n, ch, h, w) \<Rightarrow>
        let eff = dilation c * (kernel_size c - 1) + 1 in
        if int ch \<noteq> in_channels c then Inl RuntimeError
        else if kernel_size c = 0 \<or> stride c = 0 \<or> dilation c = 0 then Inl RuntimeError
        else if h + 2 * padding c < eff \<or> w + 2 * padding c < eff then Inl RuntimeError
        else Inr (n, nat (out_channels c),
                  (h + 2 * padding c - eff) div stride c + 1,
                  (w + 2 * padding c - eff) div stride c + 1))"

text \<open>
  Batch normalisation keeps the shape. In training mode it first checks the size of its
  input and raises ValueError when there is a single value per channel, that is when
  \<open>N * H * W = 1\<close>; then it wants its configured number of channels.
\<close>

definition batch_norm_shape :: "BatchNorm2d \<Rightarrow> shape \<Rightarrow> error + shape" where
  "batch_norm_shape b s =
     (case s of (n, ch, h, w) \<Rightarrow>
        if training b \<and> n * h * w = 1 then Inl ValueError
        else if int ch \<noteq> num_features b then Inl RuntimeError
        else Inr s)"

definition avg_pool_shape :: "AvgPool2d \<Rightarrow> shape \<Rightarrow> error + shape" where
  "avg_pool_shape p s =
     (case s of (n, ch, h, w) \<Rightarrow>
        case pool_kernel_size p of (kh, kw) \<Rightarrow>
        case pool_stride p of (sh, sw) \<Rightarrow>
          if kh = 0 \<or> kw = 0 \<or> sh = 0 \<or> sw = 0 \<or> h < kh \<or> w < kw then Inl RuntimeError
          else Inr (n, ch, (h - kh) div sh + 1, (w - kw) div sw + 1))"

text \<open>Bilinear resizing to a given size: input and output must be non-empty.\<close>

definition interpolate_shape :: "shape \<Rightarrow> nat \<times> nat \<Rightarrow> error + shape" where
  "interpolate_shape s sz =
     (case s of (n, ch, h, w) \<Rightarrow>
        case sz of (h', w') \<Rightarrow>
          if ch = 0 \<or> h = 0 \<or> w = 0 \<or> h' = 0 \<or> w' = 0 then Inl RuntimeError
          else Inr (n, ch, h', w'))"

text \<open>
  \<open>torch.cat(..., dim=1)\<close>: all tensors agree outside the channel axis; the channel counts
  add up.
\<close>

fun cat_shape :: "shape list \<Rightarrow> error + shape" where
  "cat_shape [] = Inl RuntimeError"
| "cat_shape [s] = Inr s"
| "cat_shape ((n, ch, h, w) # ss) =
     bindE (cat_shape ss) (\<lambda>(n', ch', h', w').
       if n = n' \<and> h = h' \<and> w = w' then Inr (n, ch + ch', h, w) else Inl RuntimeError)"

text \<open>
  Elementwise arithmetic broadcasts: two sizes of an axis are compatible when they are equal
  or one of them is 1.
\<close>

definition compatible_dim :: "nat \<Rightarrow> nat \<Rightarrow> bool" where
  "compatible_dim a b = (a = b \<or> a = 1 \<or> b = 1)"

definition broadcast_dim :: "nat \<Rightarrow> nat \<Rightarrow> nat" where
  "broadcast_dim a b = (if a = 1 then b else a)"

definition broadcastable :: "shape \<Rightarrow> shape \<Rightarrow> bool" where
  "broadcastable s t =
     (case s of (n, c, h, w) \<Rightarrow>
      case t of (n', c', h', w') \<Rightarrow>
        compatible_dim n n' \<and> compatible_dim c c' \<and> compatible_dim h h' \<and> compatible_dim w w')"

definition broadcast_shape :: "shape \<Rightarrow> shape \<Rightarrow> error + shape" where
  "broadcast_shape s t =
     (case s of (n, c, h, w) \<Rightarrow>
      case t of (n', c', h', w') \<Rightarrow>
        if broadcastable s t
        then Inr (broadcast_dim n n', broadcast_dim c c', broadcast_dim h h', broadcast_dim w w')
        else Inl RuntimeError)"

definition shape_sem :: "shape torch" where
  "shape_sem =
     \<lparr>tensor_shape = (\<lambda>s. s),
      Conv2d_forward = conv2d_shape,
      BatchNorm2d_forward = batch_norm_shape,
      ReLU_forward = Inr,
      AvgPool2d_forward = avg_pool_shape,
      F_interpolate = interpolate_shape,
      torch_cat = cat_shape,
      torch_add = broadcast_shape\<rparr>"

section \<open>model_parts.py: Encoder\<close>

text \<open>
  The stages of the residual backbone that \<open>Encoder.forward\<close> calls are modules of the
  backbone library; they are the fields of \<open>'a resnet\<close>.
\<close>

record 'a resnet =
  conv1 :: "'a \<Rightarrow> error + 'a"
  bn1 :: "'a \<Rightarrow> error + 'a"
  relu :: "'a \<Rightarrow> error + 'a"
  maxpool :: "'a \<Rightarrow> error + 'a"
  layer1 :: "'a \<Rightarrow> error + 'a"
  layer2 :: "'a \<Rightarrow> error + 'a"
  layer3 :: "'a \<Rightarrow> error + 'a"
  layer4 :: "'a \<Rightarrow> error + 'a"

text \<open>
  \<open>update_skip_dict\<close>: \<open>rem, scale = sz_in % x.shape[3], sz_in // x.shape[3]\<close>, then
  \<open>assert rem == 0\<close>, then \<open>skips[scale] = x\<close>. The dictionary is an association list in
  insertion order; \<open>AList.update\<close> replaces the value of a key that is present in place and
  appends a new key, as a Python dict does. Division by a zero width raises before the
  assertion is reached.
\<close>

definition update_skip_dict ::
  "'a torch \<Rightarrow> (nat \<times> 'a) list \<Rightarrow> 'a \<Rightarrow> nat \<Rightarrow> error + (nat \<times> 'a) list" where
  "update_skip_dict T skips x sz_in =
     (if width (tensor_shape T x) = 0 then Inl ZeroDivisionError
      else
        let rem = sz_in mod width (tensor_shape T x);
            scale = sz_in div width (tensor_shape T x)
        in if rem \<noteq> 0 then Inl AssertionError else Inr (AList.update scale x skips))"

definition Encoder_forward :: "'a torch \<Rightarrow> 'a resnet \<Rightarrow> 'a \<Rightarrow> error + (nat \<times> 'a) list" where
  "Encoder_forward T net x0 =
     (let out = [(1, x0)];
          sz_in = width (tensor_shape T x0)
      in
      bindE (conv1 net x0) (\<lambda>x.
      bindE (bn1 net x) (\<lambda>x.
      bindE (relu net x) (\<lambda>x.
      bindE (update_skip_dict T out x sz_in) (\<lambda>out.
      bindE (maxpool net x) (\<lambda>x.
      bindE (update_skip_dict T out x sz_in) (\<lambda>out.
      bindE (layer1 net x) (\<lambda>x.
      bindE (update_skip_dict T out x sz_in) (\<lambda>out.
      bindE (layer2 net x) (\<lambda>x.
      bindE (update_skip_dict T out x sz_in) (\<lambda>out.
      bindE (layer3 net x) (\<lambda>x.
      bindE (update_skip_dict T out x sz_in) (\<lambda>out.
      bindE (layer4 net x) (\<lambda>x.
      bindE (update_skip_dict T out x sz_in) (\<lambda>out.
      Inr out)))))))))))))))"

text \<open>
  \<open>_basic_block_layers\<close> and \<open>get_encoder_channel_counts\<close>.
\<close>

definition basic_block_layers :: "(string \<times> nat list) list" where
  "basic_block_layers = [(''resnet18'', [2, 2, 2, 2]), (''resnet34'', [3, 4, 6, 3])]"

definition get_encoder_channel_counts :: "string \<Rightarrow> int \<times> int" where
  "get_encoder_channel_counts encoder_name =
     (let is_basic_block = (encoder_name \<in> set (map fst basic_block_layers));
          ch_out_encoder_bottleneck = (if is_basic_block then 512 else 2048);
          ch_out_encoder_4x = (if is_basic_block then 64 else 256)
      in (ch_out_encoder_bottleneck, ch_out_encoder_4x))"

text \<open>
  \<open>Encoder.__init__\<close> and \<open>Encoder._create\<close>. A name outside \<open>_basic_block_layers\<close> is
  looked up with \<open>getattr\<close> in the backbone library, whose list of constructors is the
  parameter \<open>resnet_fns\<close>; a name it does not have raises AttributeError. The record keeps
  which stages had the padding and dilation of their first block's second convolution set
  to 2.
\<close>

record Encoder =
  backbone :: string
  layer2_dilated :: bool
  layer3_dilated :: bool
  layer4_dilated :: bool

definition Encoder_create :: "string list \<Rightarrow> string \<Rightarrow> bool list \<Rightarrow> error + Encoder" where
  "Encoder_create resnet_fns name replace_stride_with_dilation =
     (if name \<notin> set (map fst basic_block_layers) \<and> name \<notin> set resnet_fns
      then Inl AttributeError
      else if length replace_stride_with_dilation \<noteq> 3 then Inl AssertionError
      else Inr \<lparr>backbone = name,
                layer2_dilated = replace_stride_with_dilation ! 0,
                layer3_dilated = replace_stride_with_dilation ! 1,
                layer4_dilated = replace_stride_with_dilation ! 2\<rparr>)"

definition Encoder_init :: "string list \<Rightarrow> string \<Rightarrow> bool list \<Rightarrow> error + Encoder" where
  "Encoder_init resnet_fns name replace_stride_with_dilation =
     Encoder_create resnet_fns name replace_stride_with_dilation"

section \<open>model_parts.py: DecoderDeeplabV3p\<close>

record DecoderDeeplabV3p =
  conv1x1_skip :: "layer list"
  conv3x3_final :: "layer list"
  features_to_predictions :: Conv2d

definition DecoderDeeplabV3p_init :: "int \<Rightarrow> int \<Rightarrow> int \<Rightarrow> error + DecoderDeeplabV3p" where
  "DecoderDeeplabV3p_init bottleneck_ch skip_4x_ch num_out_ch =
     (let n_skip = 48 in
      bindE (Conv2d_init skip_4x_ch n_skip 1 1 0 1 True) (\<lambda>c1.
      bindE (BatchNorm2d_init n_skip) (\<lambda>b1.
      bindE (Conv2d_init (bottleneck_ch + n_skip) bottleneck_ch 3 1 1 1 False) (\<lambda>c2.
      bindE (BatchNorm2d_init bottleneck_ch) (\<lambda>b2.
      bindE (Conv2d_init bottleneck_ch num_out_ch 3 1 0 1 True) (\<lambda>c3.
      Inr \<lparr>conv1x1_skip = [Conv2dL c1, BatchNorm2dL b1, ReLUL],
           conv3x3_final = [Conv2dL c2, BatchNorm2dL b2, ReLUL],
           features_to_predictions = c3\<rparr>))))))"

definition DecoderDeeplabV3p_forward ::
  "'a torch \<Rightarrow> DecoderDeeplabV3p \<Rightarrow> 'a \<Rightarrow> 'a \<Rightarrow> error + ('a \<times> 'a)" where
  "DecoderDeeplabV3p_forward T m features_bottleneck features_skip_4x =
     bindE (F_interpolate T features_bottleneck (spatial (tensor_shape T features_skip_4x)))
       (\<lambda>features_bottleneck_4x.
     bindE (Sequential_forward T (conv1x1_skip m) features_skip_4x)
       (\<lambda>features_skip_4x_reduced.
     bindE (torch_cat T [features_bottleneck_4x, features_skip_4x_reduced])
       (\<lambda>feature_cat.
     bindE (Sequential_forward T (conv3x3_final m) feature_cat)
       (\<lambda>feature_cat.
     bindE (Conv2d_forward T (features_to_predictions m) feature_cat)
       (\<lambda>predictions.
     Inr (predictions, features_bottleneck_4x))))))"

section \<open>model_parts.py: ASPPpart and ASPP\<close>

definition ASPPpart_init :: "int \<Rightarrow> int \<Rightarrow> nat \<Rightarrow> nat \<Rightarrow> nat \<Rightarrow> nat \<Rightarrow> error + layer list" where
  "ASPPpart_init in_ch out_ch k s p d =
     bindE (Conv2d_init in_ch out_ch k s p d False) (\<lambda>c.
     bindE (BatchNorm2d_init out_ch) (\<lambda>b.
     Inr [Conv2dL c, BatchNorm2dL b, ReLUL]))"

text \<open>\<open>rates[i]\<close> on a tuple: IndexError beyond its end.\<close>

definition tuple_get :: "'a list \<Rightarrow> nat \<Rightarrow> error + 'a" where
  "tuple_get xs i = (if i < length xs then Inr (xs ! i) else Inl IndexError)"

record ASPP =
  conv_1 :: "layer list"
  conv_2 :: "layer list"
  conv_3 :: "layer list"
  conv_4 :: "layer list"
  avg_pool :: AvgPool2d
  conv1x1_global :: "layer list"
  conv_final :: "layer list"

definition ASPP_init :: "int \<Rightarrow> int \<Rightarrow> nat list \<Rightarrow> error + ASPP" where
  "ASPP_init in_ch out_ch rates =
     bindE (ASPPpart_init in_ch out_ch 1 1 0 1) (\<lambda>c1.
     bindE (tuple_get rates 0) (\<lambda>r0.
     bindE (ASPPpart_init in_ch out_ch 3 1 r0 r0) (\<lambda>c2.
     bindE (tuple_get rates 1) (\<lambda>r1.
     bindE (ASPPpart_init in_ch out_ch 3 1 r1 r1) (\<lambda>c3.
     bindE (tuple_get rates 2) (\<lambda>r2.
     bindE (ASPPpart_init in_ch out_ch 3 1 r2 r2) (\<lambda>c4.
     bindE (ASPPpart_init in_ch out_ch 1 1 1 1) (\<lambda>cg.
     bindE (ASPPpart_init (out_ch * 5) out_ch 1 1 0 1) (\<lambda>cf.
     Inr \<lparr>conv_1 = c1, conv_2 = c2, conv_3 = c3, conv_4 = c4,
          avg_pool = \<lparr>pool_kernel_size = (1, 1), pool_stride = (1, 1)\<rparr>,
          conv1x1_global = cg, conv_final = cf\<rparr>)))))))))"

text \<open>
  \<open>ASPP.forward\<close> assigns \<open>self.avg_pool.kernel_size = x.shape[2:]\<close> before pooling; the
  module with that assignment made is returned beside the output.
\<close>

definition ASPP_forward :: "'a torch \<Rightarrow> ASPP \<Rightarrow> 'a \<Rightarrow> error + (ASPP \<times> 'a)" where
  "ASPP_forward T m x =
     bindE (Sequential_forward T (conv_1 m) x) (\<lambda>conv1x1.
     bindE (Sequential_forward T (conv_2 m) x) (\<lambda>conv3x3_1.
     bindE (Sequential_forward T (conv_3 m) x) (\<lambda>conv3x3_2.
     bindE (Sequential_forward T (conv_4 m) x) (\<lambda>conv3x3_3.
     let m' = m\<lparr>avg_pool := (avg_pool m)\<lparr>pool_kernel_size := spatial (tensor_shape T x)\<rparr>\<rparr> in
     bindE (AvgPool2d_forward T (avg_pool m') x) (\<lambda>global_feat.
     bindE (Sequential_forward T (conv1x1_global m') global_feat) (\<lambda>global_feat.
     bindE (F_interpolate T global_feat (spatial (tensor_shape T x))) (\<lambda>global_feat.
     bindE (torch_cat T [conv1x1, conv3x3_1, conv3x3_2, conv3x3_3, global_feat]) (\<lambda>feature_cat.
     bindE (Sequential_forward T (conv_final m') feature_cat) (\<lambda>conv_cat.
     Inr (m', conv_cat))))))))))"

section \<open>model_parts.py: DecoderDistillation\<close>

record DecoderDistillation =
  conv3x3_final1 :: "layer list"
  conv3x3_final2 :: "layer list"
  conv3x3_final3 :: Conv2d

text \<open>Python's \<open>//\<close> is floor division, as \<open>div\<close> on \<open>int\<close> is.\<close>

definition DecoderDistillation_init :: "int \<Rightarrow> int \<Rightarrow> error + DecoderDistillation" where
  "DecoderDistillation_init in_ch num_out_ch =
     bindE (Conv2d_init in_ch (in_ch div 2) 3 1 1 1 False) (\<lambda>c1.
     bindE (BatchNorm2d_init (in_ch div 2)) (\<lambda>b1.
     bindE (Conv2d_init (in_ch div 2) (in_ch div 4) 3 1 1 1 False) (\<lambda>c2.
     bindE (BatchNorm2d_init (in_ch div 4)) (\<lambda>b2.
     bindE (Conv2d_init (in_ch div 4) num_out_ch 3 1 1 1 False) (\<lambda>c3.
     Inr \<lparr>conv3x3_final1 = [Conv2dL c1, BatchNorm2dL b1, ReLUL],
          conv3x3_final2 = [Conv2dL c2, BatchNorm2dL b2, ReLUL],
          conv3x3_final3 = c3\<rparr>)))))"

definition double_size :: "shape \<Rightarrow> nat \<times> nat" where
  "double_size s = (case s of (n, c, h, w) \<Rightarrow> (h * 2, w * 2))"

text \<open>
  \<open>DecoderDistillation.forward\<close> up to the last line: the tensor that the final projection
  \<open>conv3x3_final3\<close> receives.
\<close>

definition DecoderDistillation_features ::
  "'a torch \<Rightarrow> DecoderDistillation \<Rightarrow> 'a \<Rightarrow> 'a \<Rightarrow> error + 'a" where
  "DecoderDistillation_features T m features_low features_sa =
     bindE (torch_add T features_low features_sa) (\<lambda>all_features.
     bindE (Sequential_forward T (conv3x3_final1 m) all_features) (\<lambda>all_features.
     let target_shape = double_size (tensor_shape T all_features) in
     bindE (F_interpolate T all_features target_shape) (\<lambda>all_features.
     bindE (Sequential_forward T (conv3x3_final2 m) all_features) (\<lambda>all_features.
     let target_shape = double_size (tensor_shape T all_features) in
     F_interpolate T all_features target_shape))))"

definition DecoderDistillation_forward ::
  "'a torch \<Rightarrow> DecoderDistillation \<Rightarrow> 'a \<Rightarrow> 'a \<Rightarrow> error + 'a" where
  "DecoderDistillation_forward T m features_low features_sa =
     bindE (DecoderDistillation_features T m features_low features_sa) (\<lambda>all_features.
     Conv2d_forward T (conv3x3_final3 m) all_features)"

section \<open>model_parts.py: SelfAttention\<close>

text \<open>
  The claims about \<open>SelfAttention\<close> are about the values it computes, so here a tensor
  carries its entries. An entry is a floating-point number: a finite value, taken as the
  real number it stands for (rounding is not modelled), or one of the special values
  \<open>inf\<close>, \<open>-inf\<close> and \<open>NaN\<close>, with the arithmetic of IEEE 754 on them. In particular
  \<open>0 * inf\<close> is \<open>NaN\<close>, and \<open>NaN\<close> is the result of every operation it enters.
\<close>

datatype fval = Fin real | PInf | NInf | NaN

fun is_fin :: "fval \<Rightarrow> bool" where
  "is_fin (Fin a) = True"
| "is_fin v = False"

fun fmul :: "fval \<Rightarrow> fval \<Rightarrow> fval" where
  "fmul NaN v = NaN"
| "fmul v NaN = NaN"
| "fmul (Fin a) (Fin b) = Fin (a * b)"
| "fmul (Fin a) PInf = (if a = 0 then NaN else if 0 < a then PInf else NInf)"
| "fmul (Fin a) NInf = (if a = 0 then NaN else if 0 < a then NInf else PInf)"
| "fmul PInf (Fin b) = (if b = 0 then NaN else if 0 < b then PInf else NInf)"
| "fmul NInf (Fin b) = (if b = 0 then NaN else if 0 < b then NInf else PInf)"
| "fmul PInf PInf = PInf"
| "fmul PInf NInf = NInf"
| "fmul NInf PInf = NInf"
| "fmul NInf NInf = PInf"

fun fadd :: "fval \<Rightarrow> fval \<Rightarrow> fval" where
  "fadd NaN v = NaN"
| "fadd v NaN = NaN"
| "fadd (Fin a) (Fin b) = Fin (a + b)"
| "fadd (Fin a) PInf = PInf"
| "fadd (Fin a) NInf = NInf"
| "fadd PInf (Fin b) = PInf"
| "fadd NInf (Fin b) = NInf"
| "fadd PInf PInf = PInf"
| "fadd NInf NInf = NInf"
| "fadd PInf NInf = NaN"
| "fadd NInf PInf = NaN"

definition fsum :: "fval list \<Rightarrow> fval" where
  "fsum vs = foldr fadd vs (Fin 0)"

text \<open>The logistic function \<open>1 / (1 + exp (-v))\<close>.\<close>

fun fsigmoid :: "fval \<Rightarrow> fval" where
  "fsigmoid (Fin v) = Fin (1 / (1 + exp (- v)))"
| "fsigmoid PInf = Fin 1"
| "fsigmoid NInf = Fin 0"
| "fsigmoid NaN = NaN"

text \<open>
  \<open>val t n c i j\<close> is the entry at batch index \<open>n\<close>, channel \<open>c\<close>, row \<open>i\<close> and column
  \<open>j\<close>. Only the entries inside \<open>dims t\<close> belong to the tensor.
\<close>

record tensor =
  dims :: shape
  val :: "nat \<Rightarrow> nat \<Rightarrow> nat \<Rightarrow> nat \<Rightarrow> fval"

text \<open>
  The weight a \<open>Conv2d\<close> allocates has shape \<open>(out_channels, in_channels, k, k)\<close>; its
  initial entries are drawn at random and are the parameter \<open>rnd\<close>.
\<close>

definition Conv2d_weight :: "Conv2d \<Rightarrow> (nat \<Rightarrow> nat \<Rightarrow> nat \<Rightarrow> nat \<Rightarrow> fval) \<Rightarrow> tensor" where
  "Conv2d_weight c rnd =
     \<lparr>dims = (nat (out_channels c), nat (in_channels c), kernel_size c, kernel_size c),
      val = rnd\<rparr>"

definition zeros_like :: "tensor \<Rightarrow> tensor" where
  "zeros_like t = \<lparr>dims = dims t, val = (\<lambda>n c i j. Fin 0)\<rparr>"

text \<open>\<open>dst.copy_(src)\<close> for a source of the destination's shape.\<close>

definition copy_from :: "tensor \<Rightarrow> tensor \<Rightarrow> tensor" where
  "copy_from dst src = \<lparr>dims = dims dst, val = val src\<rparr>"

text \<open>The input read through zero padding of \<open>p\<close> on each side.\<close>

definition padded :: "tensor \<Rightarrow> nat \<Rightarrow> nat \<Rightarrow> nat \<Rightarrow> nat \<Rightarrow> nat \<Rightarrow> fval" where
  "padded x p n c u v =
     (case dims x of (bn, ch, h, w) \<Rightarrow>
        if p \<le> u \<and> u < h + p \<and> p \<le> v \<and> v < w + p then val x n c (u - p) (v - p)
        else Fin 0)"

text \<open>
  \<open>F.conv2d(x, weight, None, stride, padding, dilation)\<close>: the convolution without bias that
  \<open>Conv2d(..., bias=False).forward\<close> computes.
\<close>

definition F_conv2d :: "tensor \<Rightarrow> tensor \<Rightarrow> nat \<Rightarrow> nat \<Rightarrow> nat \<Rightarrow> error + tensor" where
  "F_conv2d x wt s p d =
     (case dims x of (n, ch, h, w) \<Rightarrow>
      case dims wt of (oc, ic, kh, kw) \<Rightarrow>
        let effh = d * (kh - 1) + 1; effw = d * (kw - 1) + 1 in
        if ch \<noteq> ic then Inl RuntimeError
        else if kh = 0 \<or> kw = 0 \<or> s = 0 \<or> d = 0 then Inl RuntimeError
        else if h + 2 * p < effh \<or> w + 2 * p < effw then Inl RuntimeError
        else Inr \<lparr>dims = (n, oc, (h + 2 * p - effh) div s + 1, (w + 2 * p - effw) div s + 1),
                  val = (\<lambda>b k i j.
                    fsum (map (\<lambda>c. fsum (map (\<lambda>a. fsum (map (\<lambda>e.
                       fmul (val wt k c a e) (padded x p b c (i * s + a * d) (j * s + e * d)))
                    [0..<kw])) [0..<kh])) [0..<ch]))\<rparr>)"

definition torch_sigmoid :: "tensor \<Rightarrow> tensor" where
  "torch_sigmoid t = \<lparr>dims = dims t, val = (\<lambda>n c i j. fsigmoid (val t n c i j))\<rparr>"

text \<open>
  Elementwise product with broadcasting: along an axis where a factor has size 1, its one
  entry is used at every index.
\<close>

definition bidx :: "nat \<Rightarrow> nat \<Rightarrow> nat" where
  "bidx d i = (if d = 1 then 0 else i)"

definition torch_mul :: "tensor \<Rightarrow> tensor \<Rightarrow> error + tensor" where
  "torch_mul a b =
     (case dims a of (n, c, h, w) \<Rightarrow>
      case dims b of (n', c', h', w') \<Rightarrow>
        bindE (broadcast_shape (dims a) (dims b)) (\<lambda>s.
        Inr \<lparr>dims = s,
             val = (\<lambda>k l i j. fmul (val a (bidx n k) (bidx c l) (bidx h i) (bidx w j))
                                  (val b (bidx n' k) (bidx c' l) (bidx h' i) (bidx w' j)))\<rparr>))"

record SelfAttention =
  conv :: Conv2d
  conv_weight :: tensor
  attention :: Conv2d
  attention_weight :: tensor

text \<open>
  \<open>SelfAttention.__init__\<close>: two convolutions, then the gating convolution's weight is
  overwritten with zeros of its own shape.
\<close>

definition SelfAttention_init ::
  "int \<Rightarrow> int \<Rightarrow> (nat \<Rightarrow> nat \<Rightarrow> nat \<Rightarrow> nat \<Rightarrow> fval) \<Rightarrow> (nat \<Rightarrow> nat \<Rightarrow> nat \<Rightarrow> nat \<Rightarrow> fval)
     \<Rightarrow> error + SelfAttention" where
  "SelfAttention_init in_ch out_ch rnd_conv rnd_attention =
     bindE (Conv2d_init in_ch out_ch 3 1 1 1 False) (\<lambda>c.
     bindE (Conv2d_init in_ch out_ch 3 1 1 1 False) (\<lambda>a.
     Inr \<lparr>conv = c,
          conv_weight = Conv2d_weight c rnd_conv,
          attention = a,
          attention_weight =
            copy_from (Conv2d_weight a rnd_attention)
                      (zeros_like (Conv2d_weight a rnd_attention))\<rparr>))"

text \<open>Calling a bias-free \<open>Conv2d\<close> module whose weight is \<open>wt\<close>.\<close>

definition Conv2d_call :: "Conv2d \<Rightarrow> tensor \<Rightarrow> tensor \<Rightarrow> error + tensor" where
  "Conv2d_call c wt x = F_conv2d x wt (stride c) (padding c) (dilation c)"

definition SelfAttention_forward :: "SelfAttention \<Rightarrow> tensor \<Rightarrow> error + tensor" where
  "SelfAttention_forward m x =
     bindE (Conv2d_call (conv m) (conv_weight m) x) (\<lambda>features.
     bindE (Conv2d_call (attention m) (attention_weight m) x) (\<lambda>gate.
     let attention_mask = torch_sigmoid gate in
     torch_mul features attention_mask))"

section \<open>model_attention.py: ModelDeepLabV3PlusBranchedSA\<close>

record cfg =
  model_encoder_name :: string

record ModelDeepLabV3PlusBranchedSA =
  outputs_desc :: "(string \<times> int) list"
  encoder :: Encoder
  aspp_semseg :: ASPP
  decoder_semseg :: DecoderDeeplabV3p
  assp_depth :: ASPP
  decoder_depth :: DecoderDeeplabV3p
  sa_from_depth2semseg :: SelfAttention
  sa_from_semseg2depth :: SelfAttention
  decoder_semseg2 :: DecoderDistillation
  decoder_depth2 :: DecoderDistillation

text \<open>
  \<open>ModelDeepLabV3PlusBranchedSA.__init__\<close>. \<open>outputs_desc\<close> is a dict from task name to
  channel count, here the list of its items in iteration order. \<open>rnd\<close> supplies the random
  initial weights of the four convolutions of the two attention modules.
\<close>

definition ModelDeepLabV3PlusBranchedSA_init ::
  "string list \<Rightarrow> cfg \<Rightarrow> (string \<times> int) list \<Rightarrow> (nat \<Rightarrow> nat \<Rightarrow> nat \<Rightarrow> nat \<Rightarrow> nat \<Rightarrow> fval)
     \<Rightarrow> error + ModelDeepLabV3PlusBranchedSA" where
  "ModelDeepLabV3PlusBranchedSA_init resnet_fns config od rnd =
     (let ch_out = sum_list (map snd od) in
      bindE (Encoder_init resnet_fns (model_encoder_name config) [False, False, True]) (\<lambda>enc.
      case get_encoder_channel_counts (model_encoder_name config) of
        (ch_out_encoder_bottleneck, ch_out_encoder_4x) \<Rightarrow>
      bindE (ASPP_init ch_out_encoder_bottleneck 256 [3, 6, 9]) (\<lambda>aspp_s.
      bindE (DecoderDeeplabV3p_init 256 ch_out_encoder_4x (ch_out - 1)) (\<lambda>dec_s.
      bindE (ASPP_init ch_out_encoder_bottleneck 256 [3, 6, 9]) (\<lambda>aspp_d.
      bindE (DecoderDeeplabV3p_init 256 ch_out_encoder_4x 1) (\<lambda>dec_d.
      bindE (SelfAttention_init 256 256 (rnd 0) (rnd 1)) (\<lambda>sa_d2s.
      bindE (SelfAttention_init 256 256 (rnd 2) (rnd 3)) (\<lambda>sa_s2d.
      bindE (DecoderDistillation_init 256 (ch_out - 1)) (\<lambda>dec_s2.
      bindE (DecoderDistillation_init 256 1) (\<lambda>dec_d2.
      Inr \<lparr>outputs_desc = od, encoder = enc,
           aspp_semseg = aspp_s, decoder_semseg = dec_s,
           assp_depth = aspp_d, decoder_depth = dec_d,
           sa_from_depth2semseg = sa_d2s, sa_from_semseg2depth = sa_s2d,
           decoder_semseg2 = dec_s2, decoder_depth2 = dec_d2\<rparr>))))))))))"

text \<open>
  The end of \<open>ModelDeepLabV3PlusBranchedSA.forward\<close>, from the two concatenations on. Only
  the channel axis matters there, so a tensor is the list of its channels.
  \<open>t[:, a:b, :, :]\<close> is Python's slice on that list: a negative bound counts from the end,
  and both bounds are clipped to the list.
\<close>

definition slice_bound :: "nat \<Rightarrow> int \<Rightarrow> nat" where
  "slice_bound len i = (if i < 0 then nat (max (i + int len) 0) else min (nat i) len)"

definition py_slice :: "'c list \<Rightarrow> int \<Rightarrow> int \<Rightarrow> 'c list" where
  "py_slice xs a b =
     (let lo = slice_bound (length xs) a; hi = slice_bound (length xs) b
      in take (hi - lo) (drop lo xs))"

fun split_loop ::
  "(string \<times> int) list \<Rightarrow> int \<Rightarrow> 'c list \<Rightarrow> 'c list \<Rightarrow> (string \<times> 'c list list) list
     \<Rightarrow> (string \<times> 'c list list) list" where
  "split_loop [] offset intermediate_predictions final_predictions out = out"
| "split_loop ((task, num_ch) # rest) offset intermediate_predictions final_predictions out =
     split_loop rest (offset + num_ch) intermediate_predictions final_predictions
       (AList.update task
          [py_slice intermediate_predictions offset (offset + num_ch),
           py_slice final_predictions offset (offset + num_ch)] out)"

definition ModelDeepLabV3PlusBranchedSA_forward_outputs ::
  "(string \<times> int) list \<Rightarrow> 'c list \<Rightarrow> 'c list \<Rightarrow> 'c list \<Rightarrow> 'c list
     \<Rightarrow> (string \<times> 'c list list) list" where
  "ModelDeepLabV3PlusBranchedSA_forward_outputs od intermediate_predictions_semseg intermediate_predictions_depth
                   final_predictions_semseg final_predictions_depth =
     (let intermediate_predictions = intermediate_predictions_semseg @ intermediate_predictions_depth;
          final_predictions = final_predictions_semseg @ final_predictions_depth
      in split_loop od 0 intermediate_predictions final_predictions [])"

section \<open>Auxiliary notions for stating the properties\<close>

text \<open>
  The specification's well-formed \<open>outputs_desc\<close>: exactly two tasks, the first with all
  channels but one and the second with one channel (the fixed semseg/depth split).
\<close>

definition outputs_desc_wellformed :: "(string \<times> int) list \<Rightarrow> bool" where
  "outputs_desc_wellformed od =
     (length od = 2 \<and> snd (od ! 0) = sum_list (map snd od) - 1 \<and> snd (od ! 1) = 1)"

text \<open>
  A symbolic run: a tensor is its shape together with the expression that computed it, and
  every operation of the library writes itself around the expressions of its arguments.
  Shapes and exceptions are those of the shape contract.
\<close>

type_synonym sym = "shape \<times> string"

definition sym_op :: "string \<Rightarrow> (shape \<Rightarrow> error + shape) \<Rightarrow> sym \<Rightarrow> error + sym" where
  "sym_op name f t = bindE (f (fst t)) (\<lambda>s. Inr (s, name @ ''('' @ snd t @ '')''))"

definition sym_sem :: "sym torch" where
  "sym_sem =
     \<lparr>tensor_shape = fst,
      Conv2d_forward = (\<lambda>c. sym_op ''conv'' (conv2d_shape c)),
      BatchNorm2d_forward = (\<lambda>b. sym_op ''bn'' (batch_norm_shape b)),
      ReLU_forward = sym_op ''relu'' Inr,
      AvgPool2d_forward = (\<lambda>p. sym_op ''avgpool'' (avg_pool_shape p)),
      F_interpolate = (\<lambda>t sz. sym_op ''interpolate'' (\<lambda>s. interpolate_shape s sz) t),
      torch_cat = (\<lambda>ts. bindE (cat_shape (map fst ts))
                      (\<lambda>s. Inr (s, ''cat('' @ concat (map (\<lambda>t. snd t @ '';'') ts) @ '')''))),
      torch_add = (\<lambda>a b. bindE (broadcast_shape (fst a) (fst b))
                      (\<lambda>s. Inr (s, ''add('' @ snd a @ '';'' @ snd b @ '')'')))\<rparr>"

text \<open>
  The tensors that the stages of \<open>Encoder.forward\<close> compute, in order: after the stem
  (conv1, bn1, relu), after maxpool, and after layer1 to layer4.
\<close>

definition Encoder_features :: "'a resnet \<Rightarrow> 'a \<Rightarrow> error + 'a list" where
  "Encoder_features net x0 =
     bindE (conv1 net x0) (\<lambda>x.
     bindE (bn1 net x) (\<lambda>x.
     bindE (relu net x) (\<lambda>x1.
     bindE (maxpool net x1) (\<lambda>x2.
     bindE (layer1 net x2) (\<lambda>x3.
     bindE (layer2 net x3) (\<lambda>x4.
     bindE (layer3 net x4) (\<lambda>x5.
     bindE (layer4 net x5) (\<lambda>x6.
     Inr [x1, x2, x3, x4, x5, x6]))))))))"

text \<open>The last tensor of a list whose downscale factor \<open>sz_in // width\<close> is \<open>k\<close>.\<close>

fun last_at_scale :: "'a torch \<Rightarrow> nat \<Rightarrow> nat \<Rightarrow> 'a list \<Rightarrow> 'a option" where
  "last_at_scale T sz_in k [] = None"
| "last_at_scale T sz_in k (t # ts) =
     (case last_at_scale T sz_in k ts of
        Some u \<Rightarrow> Some u
      | None \<Rightarrow> if sz_in div width (tensor_shape T t) = k then Some t else None)"

text \<open>
  The shapes through the stages of a ResNet-18 whose last stage is dilated instead of
  strided, the backbone the top-level model asks for: a 7x7 stride-2 stem, a 3x3 stride-2
  max pooling, and four stages of which the second and third halve the resolution.
\<close>

definition halve :: "nat \<Rightarrow> nat" where
  "halve h = (h + 2 - 3) div 2 + 1"

definition resnet18_dilated :: "shape resnet" where
  "resnet18_dilated =
     \<lparr>conv1 = conv2d_shape \<lparr>in_channels = 3, out_channels = 64, kernel_size = 7, stride = 2,
                            padding = 3, dilation = 1, bias = False\<rparr>,
      bn1 = batch_norm_shape \<lparr>num_features = 64, training = True\<rparr>,
      relu = Inr,
      maxpool = (\<lambda>(n, c, h, w). Inr (n, c, halve h, halve w)),
      layer1 = (\<lambda>(n, c, h, w). Inr (n, 64, h, w)),
      layer2 = (\<lambda>(n, c, h, w). Inr (n, 128, halve h, halve w)),
      layer3 = (\<lambda>(n, c, h, w). Inr (n, 256, halve h, halve w)),
      layer4 = (\<lambda>(n, c, h, w). Inr (n, 512, h, w))\<rparr>"

text \<open>
  The items \<open>forward\<close> puts into its result, one per task in the order of \<open>outputs_desc\<close>.
\<close>

fun task_slices :: "(string \<times> int) list \<Rightarrow> int \<Rightarrow> 'c list \<Rightarrow> 'c list \<Rightarrow> (string \<times> 'c list list) list" where
  "task_slices [] offset ip fp = []"
| "task_slices ((task, num_ch) # rest) offset ip fp =
     (task, [py_slice ip offset (offset + num_ch), py_slice fp offset (offset + num_ch)])
       # task_slices rest (offset + num_ch) ip fp"

section \<open>Properties\<close>

lemma bindE_Inr [simp]: "bindE (Inr v) f = f v"
  by (simp add: bindE_def)

lemma bindE_Inl [simp]: "bindE (Inl e) f = Inl e"
  by (simp add: bindE_def)

lemma bindE_eq_Inr: "bindE r f = Inr y \<longleftrightarrow> (\<exists>v. r = Inr v \<and> f v = Inr y)"
  by (cases r) simp_all

subsection \<open>Shapes through ASPP and DecoderDistillation\<close>

lemmas shape_defs = shape_sem_def layer_forward_def conv2d_shape_def batch_norm_shape_def
  avg_pool_shape_def interpolate_shape_def broadcast_shape_def broadcastable_def
  compatible_dim_def broadcast_dim_def spatial_def width_def double_size_def

lemmas init_defs = Conv2d_init_def BatchNorm2d_init_def ASPPpart_init_def tuple_get_def

text \<open>What a successful \<open>ASPP.__init__\<close> has built.\<close>

lemma ASPP_init_Inr:
  assumes "ASPP_init in_ch out_ch rates = Inr m"
  shows "0 \<le> in_ch \<and> 0 \<le> out_ch \<and> 3 \<le> length rates \<and>
    m = \<lparr>conv_1 = [Conv2dL \<lparr>in_channels = in_ch, out_channels = out_ch, kernel_size = 1,
                       stride = 1, padding = 0, dilation = 1, bias = False\<rparr>,
                   BatchNorm2dL \<lparr>num_features = out_ch, training = True\<rparr>, ReLUL],
         conv_2 = [Conv2dL \<lparr>in_channels = in_ch, out_channels = out_ch, kernel_size = 3,
                       stride = 1, padding = rates ! 0, dilation = rates ! 0, bias = False\<rparr>,
                   BatchNorm2dL \<lparr>num_features = out_ch, training = True\<rparr>, ReLUL],
         conv_3 = [Conv2dL \<lparr>in_channels = in_ch, out_channels = out_ch, kernel_size = 3,
                       stride = 1, padding = rates ! 1, dilation = rates ! 1, bias = False\<rparr>,
                   BatchNorm2dL \<lparr>num_features = out_ch, training = True\<rparr>, ReLUL],
         conv_4 = [Conv2dL \<lparr>in_channels = in_ch, out_channels = out_ch, kernel_size = 3,
                       stride = 1, padding = rates ! 2, dilation = rates ! 2, bias = False\<rparr>,
                   BatchNorm2dL \<lparr>num_features = out_ch, training = True\<rparr>, ReLUL],
         avg_pool = \<lparr>pool_kernel_size = (1, 1), pool_stride = (1, 1)\<rparr>,
         conv1x1_global = [Conv2dL \<lparr>in_channels = in_ch, out_channels = out_ch, kernel_size = 1,
                       stride = 1, padding = 1, dilation = 1, bias = False\<rparr>,
                   BatchNorm2dL \<lparr>num_features = out_ch, training = True\<rparr>, ReLUL],
         conv_final = [Conv2dL \<lparr>in_channels = out_ch * 5, out_channels = out_ch,
                       kernel_size = 1, stride = 1, padding = 0, dilation = 1, bias = False\<rparr>,
                   BatchNorm2dL \<lparr>num_features = out_ch, training = True\<rparr>, ReLUL]\<rparr>"
  using assms
  by (auto simp: ASPP_init_def init_defs bindE_eq_Inr split: if_splits)

text \<open>
  Claim C6, as amended. For an ASPP module built with positive channel counts and positive
  dilation rates, the forward pass on a tensor of shape \<open>(n, in_channels, h, w)\<close> that
  holds more than one value per channel, \<open>n * h * w > 1\<close>, returns a tensor of shape
  \<open>(n, out_channels, h, w)\<close>: the spatial size of the input and \<open>out_channels\<close>
  channels. (The module comes back with its pooling window set to \<open>(h, w)\<close>.)
\<close>

theorem ASPP_forward_shape:
  assumes "ASPP_init in_ch out_ch rates = Inr m"
      and "0 < in_ch" "0 < out_ch" "0 < rates ! 0" "0 < rates ! 1" "0 < rates ! 2"
      and "1 < n * h * w"
  shows "ASPP_forward shape_sem m (n, nat in_ch, h, w)
           = Inr (m\<lparr>avg_pool := (avg_pool m)\<lparr>pool_kernel_size := (h, w)\<rparr>\<rparr>,
                  (n, nat out_ch, h, w))"
proof -
  have pos: "0 < n" "0 < h" "0 < w" and ne: "n * h * w \<noteq> Suc 0"
    using assms(7) by (auto intro: Nat.gr0I)
  have glob: "n * 3 * 3 \<noteq> Suc 0"
    by presburger
  show ?thesis
    using ASPP_init_Inr [OF assms(1)] assms(2-6) pos ne glob
    by (simp add: ASPP_forward_def shape_defs)
qed

theorem ASPP_forward_shape_witness:
  "\<not> isl (ASPP_init 512 256 [3, 6, 9]) \<and>
   map_sum id snd (ASPP_forward shape_sem (projr (ASPP_init 512 256 [3, 6, 9])) (2, 512, 8, 16))
     = Inr (2, 256, 8, 16)"
proof -
  obtain m where m: "ASPP_init 512 256 [3, 6, 9] = Inr m"
    by (simp add: ASPP_init_def init_defs)
  from ASPP_forward_shape [OF m, of 2 8 16] show ?thesis
    by (simp add: m)
qed

text \<open>
  The claim as stated fails: on an input of shape \<open>(1, 512, 1, 1)\<close> the module as
  constructed raises ValueError, in the batch normalisation of its first branch, and returns
  no tensor.
\<close>

theorem ASPP_forward_shape_counterexample:
  "\<not> isl (ASPP_init 512 256 [3, 6, 9]) \<and>
   ASPP_forward shape_sem (projr (ASPP_init 512 256 [3, 6, 9])) (1, 512, 1, 1) = Inl ValueError"
  by (simp add: ASPP_init_def init_defs ASPP_forward_def shape_defs)

text \<open>What a successful \<open>DecoderDistillation.__init__\<close> has built.\<close>

lemma DecoderDistillation_init_Inr:
  assumes "DecoderDistillation_init in_ch num_out_ch = Inr m"
  shows "0 \<le> in_ch \<and> 0 \<le> num_out_ch \<and>
    m = \<lparr>conv3x3_final1 = [Conv2dL \<lparr>in_channels = in_ch, out_channels = in_ch div 2,
                       kernel_size = 3, stride = 1, padding = 1, dilation = 1, bias = False\<rparr>,
                   BatchNorm2dL \<lparr>num_features = in_ch div 2, training = True\<rparr>, ReLUL],
         conv3x3_final2 = [Conv2dL \<lparr>in_channels = in_ch div 2, out_channels = in_ch div 4,
                       kernel_size = 3, stride = 1, padding = 1, dilation = 1, bias = False\<rparr>,
                   BatchNorm2dL \<lparr>num_features = in_ch div 4, training = True\<rparr>, ReLUL],
         conv3x3_final3 = \<lparr>in_channels = in_ch div 4, out_channels = num_out_ch,
                       kernel_size = 3, stride = 1, padding = 1, dilation = 1, bias = False\<rparr>\<rparr>"
  using assms
  by (auto simp: DecoderDistillation_init_def init_defs bindE_eq_Inr split: if_splits)

text \<open>The decoder from the sum of its two inputs on.\<close>

lemma DecoderDistillation_after_add:
  assumes "DecoderDistillation_init in_ch num_out_ch = Inr m"
      and "torch_add shape_sem fl fs = Inr (n, nat in_ch, h, w)"
      and "4 \<le> in_ch" "1 < n * h * w"
  shows "DecoderDistillation_features shape_sem m fl fs = Inr (n, nat (in_ch div 4), 4 * h, 4 * w)"
    and "DecoderDistillation_forward shape_sem m fl fs = Inr (n, nat num_out_ch, 4 * h, 4 * w)"
proof -
  have pos: "0 < in_ch div 2" "0 < in_ch div 4"
    using assms(3) by simp_all
  have sz: "0 < n" "0 < h" "0 < w" and ne: "n * h * w \<noteq> Suc 0"
    using assms(4) by (auto intro: Nat.gr0I)
  have up: "n * (h * 2) * (w * 2) \<noteq> Suc 0"
    by simp
  show f: "DecoderDistillation_features shape_sem m fl fs
             = Inr (n, nat (in_ch div 4), 4 * h, 4 * w)"
    using DecoderDistillation_init_Inr [OF assms(1)] assms(2,3) pos sz ne up
    by (simp add: DecoderDistillation_features_def shape_sem_def layer_forward_def
        conv2d_shape_def batch_norm_shape_def interpolate_shape_def double_size_def)
  show "DecoderDistillation_forward shape_sem m fl fs = Inr (n, nat num_out_ch, 4 * h, 4 * w)"
    unfolding DecoderDistillation_forward_def f bindE_Inr
    using DecoderDistillation_init_Inr [OF assms(1)] sz pos
    by (simp add: shape_sem_def conv2d_shape_def)
qed

text \<open>
  Claim C7, as amended. For two inputs of one shape \<open>(n, in_channels, h, w)\<close> that hold
  more than one value per channel, \<open>n * h * w > 1\<close>, and a module with
  \<open>in_channels \<ge> 4\<close> and \<open>num_out_ch > 0\<close>, the forward pass returns a tensor of spatial
  size \<open>(4h, 4w)\<close> with \<open>num_out_ch\<close> channels, and the tensor that enters the final
  projection has \<open>in_channels // 4\<close> channels at that spatial size.
\<close>

theorem DecoderDistillation_forward_shape:
  assumes "DecoderDistillation_init in_ch num_out_ch = Inr m"
      and "4 \<le> in_ch" "0 < num_out_ch" "1 < n * h * w"
  shows "DecoderDistillation_features shape_sem m (n, nat in_ch, h, w) (n, nat in_ch, h, w)
           = Inr (n, nat (in_ch div 4), 4 * h, 4 * w) \<and>
         DecoderDistillation_forward shape_sem m (n, nat in_ch, h, w) (n, nat in_ch, h, w)
           = Inr (n, nat num_out_ch, 4 * h, 4 * w)"
proof -
  have "torch_add shape_sem (n, nat in_ch, h, w) (n, nat in_ch, h, w) = Inr (n, nat in_ch, h, w)"
    by (simp add: shape_defs)
  from DecoderDistillation_after_add [OF assms(1) this assms(2) assms(4)]
  show ?thesis by simp
qed

theorem DecoderDistillation_forward_shape_witness:
  "\<not> isl (DecoderDistillation_init 256 19) \<and>
   DecoderDistillation_features shape_sem (projr (DecoderDistillation_init 256 19))
       (2, 256, 32, 64) (2, 256, 32, 64) = Inr (2, 64, 128, 256) \<and>
   DecoderDistillation_forward shape_sem (projr (DecoderDistillation_init 256 19))
       (2, 256, 32, 64) (2, 256, 32, 64) = Inr (2, 19, 128, 256)"
proof -
  obtain m where m: "DecoderDistillation_init 256 19 = Inr m"
    by (simp add: DecoderDistillation_init_def init_defs)
  from DecoderDistillation_forward_shape [OF m, of 2 32 64] show ?thesis
    by (simp add: m)
qed

text \<open>
  The claim as stated fails: on two inputs of shape \<open>(1, 256, 1, 1)\<close> the module as
  constructed raises ValueError, in its first batch normalisation, and returns no tensor.
\<close>

theorem DecoderDistillation_forward_shape_counterexample:
  "\<not> isl (DecoderDistillation_init 256 19) \<and>
   DecoderDistillation_forward shape_sem (projr (DecoderDistillation_init 256 19))
       (1, 256, 1, 1) (1, 256, 1, 1) = Inl ValueError"
  by (simp add: DecoderDistillation_init_def init_defs DecoderDistillation_forward_def
      DecoderDistillation_features_def shape_defs)




subsection \<open>SelfAttention\<close>

text \<open>What a successful \<open>SelfAttention.__init__\<close> has built.\<close>

lemma SelfAttention_init_Inr:
  assumes "SelfAttention_init in_ch out_ch r1 r2 = Inr m"
  shows "0 \<le> in_ch \<and> 0 \<le> out_ch \<and>
    m = \<lparr>conv = \<lparr>in_channels = in_ch, out_channels = out_ch, kernel_size = 3,
                 stride = 1, padding = 1, dilation = 1, bias = False\<rparr>,
         conv_weight = \<lparr>dims = (nat out_ch, nat in_ch, 3, 3), val = r1\<rparr>,
         attention = \<lparr>in_channels = in_ch, out_channels = out_ch, kernel_size = 3,
                 stride = 1, padding = 1, dilation = 1, bias = False\<rparr>,
         attention_weight = \<lparr>dims = (nat out_ch, nat in_ch, 3, 3), val = (\<lambda>n c i j. Fin 0)\<rparr>\<rparr>"
  using assms
  by (auto simp: SelfAttention_init_def Conv2d_init_def Conv2d_weight_def zeros_like_def
      copy_from_def bindE_eq_Inr split: if_splits)

text \<open>A 3x3 convolution with stride 1, padding 1 and dilation 1 on a non-empty input.\<close>

lemma F_conv2d_3x3_same:
  assumes "dims x = (n, ch, h, w)" "dims wt = (oc, ch, 3, 3)" "0 < h" "0 < w"
  shows "\<exists>y. F_conv2d x wt 1 1 1 = Inr y \<and> dims y = (n, oc, h, w) \<and>
     val y = (\<lambda>b k i j. fsum (map (\<lambda>c. fsum (map (\<lambda>a. fsum (map (\<lambda>e.
                       fmul (val wt k c a e) (padded x 1 b c (i + a) (j + e)))
                    [0..<3])) [0..<3])) [0..<ch]))"
  using assms by (simp add: F_conv2d_def)

text \<open>
  Claim C9. A SelfAttention module with positive channel counts maps a non-empty input of shape
  \<open>(n, in_channels, h, w)\<close> to a tensor of shape \<open>(n, out_channels, h, w)\<close>. This holds
  for the module as constructed and for any later values of its two weights (\<open>m\<close> has the
  convolutions and the weight shapes of the constructed \<open>m0\<close>).
\<close>

theorem SelfAttention_forward_shape:
  assumes "SelfAttention_init in_ch out_ch r1 r2 = Inr m0"
      and "conv m = conv m0" "attention m = attention m0"
      and "dims (conv_weight m) = dims (conv_weight m0)"
      and "dims (attention_weight m) = dims (attention_weight m0)"
      and "dims x = (n, nat in_ch, h, w)" "0 < h" "0 < w"
      and "0 < in_ch" "0 < out_ch"
  shows "\<exists>y. SelfAttention_forward m x = Inr y \<and> dims y = (n, nat out_ch, h, w)"
proof -
  note i = SelfAttention_init_Inr [OF assms(1)]
  have cw: "dims (conv_weight m) = (nat out_ch, nat in_ch, 3, 3)"
   and aw: "dims (attention_weight m) = (nat out_ch, nat in_ch, 3, 3)"
   and c: "stride (conv m) = 1" "padding (conv m) = 1" "dilation (conv m) = 1"
   and a: "stride (attention m) = 1" "padding (attention m) = 1" "dilation (attention m) = 1"
    using i assms(2-5) by simp_all
  from F_conv2d_3x3_same [OF assms(6) cw assms(7,8)] obtain f
    where f: "F_conv2d x (conv_weight m) 1 1 1 = Inr f" "dims f = (n, nat out_ch, h, w)" by blast
  from F_conv2d_3x3_same [OF assms(6) aw assms(7,8)] obtain g
    where g: "F_conv2d x (attention_weight m) 1 1 1 = Inr g" "dims g = (n, nat out_ch, h, w)" by blast
  show ?thesis
    using f g c a
    by (simp add: SelfAttention_forward_def Conv2d_call_def torch_mul_def torch_sigmoid_def
        broadcast_shape_def broadcastable_def compatible_dim_def broadcast_dim_def)
qed

theorem SelfAttention_forward_shape_witness:
  "\<not> isl (SelfAttention_init 256 256 (\<lambda>n c i j. Fin 1) (\<lambda>n c i j. Fin 1)) \<and>
   map_sum id dims
     (SelfAttention_forward
        (projr (SelfAttention_init 256 256 (\<lambda>n c i j. Fin 1) (\<lambda>n c i j. Fin 1)))
        \<lparr>dims = (2, 256, 32, 64), val = (\<lambda>n c i j. Fin 1)\<rparr>)
     = Inr (2, 256, 32, 64)"
proof -
  obtain m where m: "SelfAttention_init 256 256 (\<lambda>n c i j. Fin 1) (\<lambda>n c i j. Fin 1) = Inr m"
    by (simp add: SelfAttention_init_def Conv2d_init_def)
  have d: "dims \<lparr>dims = (2, 256, 32, 64), val = (\<lambda>n c i j. Fin 1)\<rparr> = (2, nat 256, 32, 64)"
    by simp
  from SelfAttention_forward_shape [OF m refl refl refl refl d]
  obtain y where
    "SelfAttention_forward m \<lparr>dims = (2, 256, 32, 64), val = (\<lambda>n c i j. Fin 1)\<rparr> = Inr y"
    "dims y = (2, 256, 32, 64)" by auto
  then show ?thesis by (simp add: m)
qed

text \<open>Sums and products with the finite zero.\<close>

lemma fsum_zero: "set vs \<subseteq> {Fin 0} \<Longrightarrow> fsum vs = Fin 0"
  by (induction vs) (auto simp: fsum_def)

lemma fmul_zero_fin: "is_fin v \<Longrightarrow> fmul (Fin 0) v = Fin 0"
  by (cases v) simp_all

lemma fmul_commute: "fmul a b = fmul b a"
  by (cases a; cases b) (simp_all add: mult.commute)

text \<open>Reading a tensor of finite entries through zero padding gives finite values.\<close>

lemma padded_fin:
  assumes "dims x = (n, ch, h, w)"
      and "\<forall>b<n. \<forall>c<ch. \<forall>i<h. \<forall>j<w. is_fin (val x b c i j)"
      and "b < n" "c < ch"
  shows "is_fin (padded x p b c u v)"
proof (cases "p \<le> u \<and> u < h + p \<and> p \<le> v \<and> v < w + p")
  case True
  then have "u - p < h" "v - p < w" by auto
  with assms show ?thesis
    using True by (simp add: padded_def)
next
  case False
  then show ?thesis
    using assms(1) by (auto simp: padded_def)
qed

text \<open>
  Claim C4, as amended. Right after construction (with positive channel counts) every entry
  of the gating convolution's weight is 0, and on a non-empty input \<open>x\<close> of shape
  \<open>(n, in_channels, h, w)\<close> whose entries are all finite the forward pass returns a tensor
  of the shape of \<open>self.conv(x)\<close> whose every entry is 0.5 times the entry of
  \<open>self.conv(x)\<close> at the same place.
\<close>

theorem SelfAttention_zero_gate:
  assumes "SelfAttention_init in_ch out_ch r1 r2 = Inr m"
      and "dims x = (n, nat in_ch, h, w)" "0 < h" "0 < w"
      and "0 < in_ch" "0 < out_ch"
      and "\<forall>b<n. \<forall>c<nat in_ch. \<forall>i<h. \<forall>j<w. is_fin (val x b c i j)"
  shows "(\<forall>k c a e. val (attention_weight m) k c a e = Fin 0) \<and>
         (\<exists>f y. Conv2d_call (conv m) (conv_weight m) x = Inr f \<and>
                 SelfAttention_forward m x = Inr y \<and> dims y = dims f \<and>
                 (\<forall>b<n. \<forall>k<nat out_ch. \<forall>i<h. \<forall>j<w.
                     val y b k i j = fmul (Fin (1 / 2)) (val f b k i j)))"
proof -
  note i = SelfAttention_init_Inr [OF assms(1)]
  have cw: "dims (conv_weight m) = (nat out_ch, nat in_ch, 3, 3)"
   and aw: "dims (attention_weight m) = (nat out_ch, nat in_ch, 3, 3)"
   and c: "stride (conv m) = 1" "padding (conv m) = 1" "dilation (conv m) = 1"
   and a: "stride (attention m) = 1" "padding (attention m) = 1" "dilation (attention m) = 1"
   and z: "val (attention_weight m) = (\<lambda>n c i j. Fin 0)"
    using i by simp_all
  from F_conv2d_3x3_same [OF assms(2) cw assms(3,4)] obtain f
    where f: "F_conv2d x (conv_weight m) 1 1 1 = Inr f" "dims f = (n, nat out_ch, h, w)" by blast
  from F_conv2d_3x3_same [OF assms(2) aw assms(3,4)] obtain g
    where g: "F_conv2d x (attention_weight m) 1 1 1 = Inr g" "dims g = (n, nat out_ch, h, w)"
      "val g = (\<lambda>b k i j. fsum (map (\<lambda>c. fsum (map (\<lambda>a. fsum (map (\<lambda>e.
                       fmul (val (attention_weight m) k c a e) (padded x 1 b c (i + a) (j + e)))
                    [0..<3])) [0..<3])) [0..<nat in_ch]))" by blast
  have g0: "val g b k i j = Fin 0" if "b < n" for b k i j
  proof -
    have t: "fmul (Fin 0) (padded x (Suc 0) b c u v) = Fin 0" if "c < nat in_ch" for c u v
      using padded_fin [OF assms(2) assms(7) \<open>b < n\<close> that] by (rule fmul_zero_fin)
    show ?thesis
      unfolding g(3) z
      by (intro fsum_zero) (auto simp: t intro!: fsum_zero)
  qed
  have run: "SelfAttention_forward m x = Inr \<lparr>dims = (n, nat out_ch, h, w),
          val = (\<lambda>k l i j.
             fmul (val f (bidx n k) (bidx (nat out_ch) l) (bidx h i) (bidx w j))
               (fsigmoid (val g (bidx n k) (bidx (nat out_ch) l) (bidx h i) (bidx w j))))\<rparr>"
    using f g(1,2) c a
    by (simp add: SelfAttention_forward_def Conv2d_call_def torch_mul_def torch_sigmoid_def
        broadcast_shape_def broadcastable_def compatible_dim_def broadcast_dim_def)
  have conv: "Conv2d_call (conv m) (conv_weight m) x = Inr f"
    using f c by (simp add: Conv2d_call_def)
  have half: "fsigmoid (Fin 0) = Fin (1 / 2)"
    by simp
  have b0: "bidx d u = u" if "u < d" for d u
    using that by (auto simp: bidx_def)
  show ?thesis
    unfolding run conv
    using z f(2) by (auto simp: b0 g0 half fmul_commute [of _ "Fin (1 / 2)"])
qed

theorem SelfAttention_zero_gate_witness:
  "\<not> isl (SelfAttention_init 1 1 (\<lambda>n c i j. Fin 1) (\<lambda>n c i j. Fin 7)) \<and>
   val (attention_weight (projr (SelfAttention_init 1 1 (\<lambda>n c i j. Fin 1) (\<lambda>n c i j. Fin 7))))
       0 0 1 1 = Fin 0 \<and>
   map_sum id (\<lambda>f. val f 0 0 0 0)
     (Conv2d_call (conv (projr (SelfAttention_init 1 1 (\<lambda>n c i j. Fin 1) (\<lambda>n c i j. Fin 7))))
        (conv_weight (projr (SelfAttention_init 1 1 (\<lambda>n c i j. Fin 1) (\<lambda>n c i j. Fin 7))))
        \<lparr>dims = (1, 1, 1, 1), val = (\<lambda>n c i j. Fin 2)\<rparr>) = Inr (Fin 2) \<and>
   map_sum id (\<lambda>y. val y 0 0 0 0)
     (SelfAttention_forward
        (projr (SelfAttention_init 1 1 (\<lambda>n c i j. Fin 1) (\<lambda>n c i j. Fin 7)))
        \<lparr>dims = (1, 1, 1, 1), val = (\<lambda>n c i j. Fin 2)\<rparr>) = Inr (Fin 1)"
proof -
  let ?x = "\<lparr>dims = (1, 1, 1, 1), val = (\<lambda>n c i j. Fin 2)\<rparr>"
  obtain m where m: "SelfAttention_init 1 1 (\<lambda>n c i j. Fin 1) (\<lambda>n c i j. Fin 7) = Inr m"
    by (simp add: SelfAttention_init_def Conv2d_init_def)
  have d: "dims ?x = (1, nat 1, 1, 1)"
    by simp
  from SelfAttention_zero_gate [OF m d]
  obtain f y where z: "val (attention_weight m) 0 0 1 1 = Fin 0"
    and f: "Conv2d_call (conv m) (conv_weight m) ?x = Inr f"
    and y: "SelfAttention_forward m ?x = Inr y"
    and v: "val y 0 0 0 0 = fmul (Fin (1 / 2)) (val f 0 0 0 0)"
    by auto
  have u: "[0..<3] = [0, 1, 2::nat]"
    by code_simp
  have "val f 0 0 0 0 = Fin 2"
    using f SelfAttention_init_Inr [OF m]
    by (auto simp: Conv2d_call_def F_conv2d_def padded_def fsum_def u)
  then show ?thesis
    using z f y v by (simp add: m)
qed

text \<open>
  The claim as stated, for every input, fails on an input with an infinite entry. With a
  feature weight of ones and the one-pixel input \<open>inf\<close>, \<open>self.conv(x)\<close> is \<open>inf\<close> and so
  is 0.5 times it, while the gating logit is \<open>0 * inf = NaN\<close> and the forward pass returns
  \<open>NaN\<close>.
\<close>

theorem SelfAttention_zero_gate_counterexample:
  "\<not> isl (SelfAttention_init 1 1 (\<lambda>n c i j. Fin 1) (\<lambda>n c i j. Fin 7)) \<and>
   map_sum id (\<lambda>f. fmul (Fin (1 / 2)) (val f 0 0 0 0))
     (Conv2d_call (conv (projr (SelfAttention_init 1 1 (\<lambda>n c i j. Fin 1) (\<lambda>n c i j. Fin 7))))
        (conv_weight (projr (SelfAttention_init 1 1 (\<lambda>n c i j. Fin 1) (\<lambda>n c i j. Fin 7))))
        \<lparr>dims = (1, 1, 1, 1), val = (\<lambda>n c i j. PInf)\<rparr>) = Inr PInf \<and>
   map_sum id (\<lambda>y. val y 0 0 0 0)
     (SelfAttention_forward
        (projr (SelfAttention_init 1 1 (\<lambda>n c i j. Fin 1) (\<lambda>n c i j. Fin 7)))
        \<lparr>dims = (1, 1, 1, 1), val = (\<lambda>n c i j. PInf)\<rparr>) = Inr NaN"
proof -
  have u: "[0..<3] = [0, 1, 2::nat]"
    by code_simp
  show ?thesis
    by (simp add: SelfAttention_init_def Conv2d_init_def Conv2d_weight_def zeros_like_def
        copy_from_def SelfAttention_forward_def Conv2d_call_def F_conv2d_def padded_def
        fsum_def u torch_mul_def torch_sigmoid_def broadcast_shape_def broadcastable_def
        compatible_dim_def broadcast_dim_def bidx_def)
qed

subsection \<open>Construction of the top-level model\<close>

text \<open>What a successful \<open>DecoderDeeplabV3p.__init__\<close> has built.\<close>

lemma DecoderDeeplabV3p_init_Inr:
  assumes "DecoderDeeplabV3p_init bottleneck_ch skip_4x_ch num_out_ch = Inr m"
  shows "0 \<le> bottleneck_ch \<and> 0 \<le> skip_4x_ch \<and> 0 \<le> num_out_ch \<and>
    m = \<lparr>conv1x1_skip = [Conv2dL \<lparr>in_channels = skip_4x_ch, out_channels = 48, kernel_size = 1,
                       stride = 1, padding = 0, dilation = 1, bias = True\<rparr>,
                   BatchNorm2dL \<lparr>num_features = 48, training = True\<rparr>, ReLUL],
         conv3x3_final = [Conv2dL \<lparr>in_channels = bottleneck_ch + 48, out_channels = bottleneck_ch,
                       kernel_size = 3, stride = 1, padding = 1, dilation = 1, bias = False\<rparr>,
                   BatchNorm2dL \<lparr>num_features = bottleneck_ch, training = True\<rparr>, ReLUL],
         features_to_predictions = \<lparr>in_channels = bottleneck_ch, out_channels = num_out_ch,
                       kernel_size = 3, stride = 1, padding = 0, dilation = 1, bias = True\<rparr>\<rparr>"
  using assms
  by (auto simp: DecoderDeeplabV3p_init_def init_defs bindE_eq_Inr split: if_splits)

lemma DecoderDeeplabV3p_init_ok:
  "0 \<le> b \<Longrightarrow> 0 \<le> s \<Longrightarrow> 0 \<le> n \<Longrightarrow> \<exists>m. DecoderDeeplabV3p_init b s n = Inr m \<and> out_channels (features_to_predictions m) = n"
  by (simp add: DecoderDeeplabV3p_init_def init_defs)

lemma DecoderDeeplabV3p_init_neg:
  "0 \<le> b \<Longrightarrow> 0 \<le> s \<Longrightarrow> n < 0 \<Longrightarrow> DecoderDeeplabV3p_init b s n = Inl RuntimeError"
  by (simp add: DecoderDeeplabV3p_init_def init_defs)

lemma DecoderDistillation_init_ok:
  "0 \<le> b \<Longrightarrow> 0 \<le> n \<Longrightarrow> \<exists>m. DecoderDistillation_init b n = Inr m \<and> out_channels (conv3x3_final3 m) = n"
  by (simp add: DecoderDistillation_init_def init_defs)

lemma ASPP_init_ok:
  "0 \<le> b \<Longrightarrow> 0 \<le> n \<Longrightarrow> \<exists>m. ASPP_init b n [r0, r1, r2] = Inr m"
  by (simp add: ASPP_init_def init_defs)

lemma SelfAttention_init_ok:
  "0 \<le> b \<Longrightarrow> 0 \<le> n \<Longrightarrow> \<exists>m. SelfAttention_init b n r1 r2 = Inr m"
  by (simp add: SelfAttention_init_def init_defs)

lemma channel_counts_nonneg:
  "get_encoder_channel_counts name = (a, b) \<Longrightarrow> 0 \<le> a \<and> 0 \<le> b"
  by (auto simp: get_encoder_channel_counts_def Let_def split: if_splits)

text \<open>
  Claim C1, as amended. The constructor does not look at the number of entries of
  \<open>outputs_desc\<close> nor at how the channels are divided among them; it uses the sum
  \<open>ch_out\<close> of the counts only. With a backbone name that the encoder accepts,
  construction fails when \<open>ch_out < 1\<close>, with the RuntimeError of the convolution that
  would get \<open>ch_out - 1 < 0\<close> output channels; every \<open>outputs_desc\<close> with
  \<open>ch_out \<ge> 2\<close> is accepted, and the model built has semseg heads of \<open>ch_out - 1\<close>
  channels and depth heads of 1 channel.
\<close>

theorem ModelDeepLabV3PlusBranchedSA_init_accepts:
  assumes "Encoder_init resnet_fns (model_encoder_name config) [False, False, True] = Inr enc"
  shows "(sum_list (map snd od) < 1 \<longrightarrow>
            ModelDeepLabV3PlusBranchedSA_init resnet_fns config od rnd = Inl RuntimeError) \<and>
         (2 \<le> sum_list (map snd od) \<longrightarrow>
            (\<exists>m. ModelDeepLabV3PlusBranchedSA_init resnet_fns config od rnd = Inr m \<and>
                 outputs_desc m = od \<and>
                 out_channels (features_to_predictions (decoder_semseg m)) = sum_list (map snd od) - 1 \<and>
                 out_channels (features_to_predictions (decoder_depth m)) = 1 \<and>
                 out_channels (conv3x3_final3 (decoder_semseg2 m)) = sum_list (map snd od) - 1 \<and>
                 out_channels (conv3x3_final3 (decoder_depth2 m)) = 1))"
proof -
  obtain a b where ab: "get_encoder_channel_counts (model_encoder_name config) = (a, b)"
    by (cases "get_encoder_channel_counts (model_encoder_name config)")
  from channel_counts_nonneg [OF ab] have nn: "0 \<le> a" "0 \<le> b" by simp_all
  obtain aspp where aspp: "ASPP_init a 256 [3, 6, 9] = Inr aspp"
    using ASPP_init_ok [of a 256 3 6 9] nn by auto
  obtain dd where dd: "DecoderDeeplabV3p_init 256 b 1 = Inr dd"
      "out_channels (features_to_predictions dd) = 1"
    using DecoderDeeplabV3p_init_ok [of 256 b 1] nn by auto
  obtain sa1 where sa1: "SelfAttention_init 256 256 (rnd 0) (rnd (Suc 0)) = Inr sa1"
    using SelfAttention_init_ok [of 256 256] by auto
  obtain sa2 where sa2: "SelfAttention_init 256 256 (rnd 2) (rnd 3) = Inr sa2"
    using SelfAttention_init_ok [of 256 256] by auto
  obtain d2 where d2: "DecoderDistillation_init 256 1 = Inr d2"
      "out_channels (conv3x3_final3 d2) = 1"
    using DecoderDistillation_init_ok [of 256 1] by auto
  show ?thesis
  proof (intro conjI impI)
    assume "sum_list (map snd od) < 1"
    then have "DecoderDeeplabV3p_init 256 b (sum_list (map snd od) - 1) = Inl RuntimeError"
      using DecoderDeeplabV3p_init_neg [of 256 b "sum_list (map snd od) - 1"] nn by simp
    then show "ModelDeepLabV3PlusBranchedSA_init resnet_fns config od rnd = Inl RuntimeError"
      by (simp add: ModelDeepLabV3PlusBranchedSA_init_def assms ab aspp)
  next
    assume s: "2 \<le> sum_list (map snd od)"
    obtain ds where ds: "DecoderDeeplabV3p_init 256 b (sum_list (map snd od) - 1) = Inr ds"
      "out_channels (features_to_predictions ds) = sum_list (map snd od) - 1"
      using DecoderDeeplabV3p_init_ok [of 256 b "sum_list (map snd od) - 1"] nn s by auto
    obtain d1 where d1: "DecoderDistillation_init 256 (sum_list (map snd od) - 1) = Inr d1"
      "out_channels (conv3x3_final3 d1) = sum_list (map snd od) - 1"
      using DecoderDistillation_init_ok [of 256 "sum_list (map snd od) - 1"] s by auto
    show "\<exists>m. ModelDeepLabV3PlusBranchedSA_init resnet_fns config od rnd = Inr m \<and>
                 outputs_desc m = od \<and>
                 out_channels (features_to_predictions (decoder_semseg m)) = sum_list (map snd od) - 1 \<and>
                 out_channels (features_to_predictions (decoder_depth m)) = 1 \<and>
                 out_channels (conv3x3_final3 (decoder_semseg2 m)) = sum_list (map snd od) - 1 \<and>
                 out_channels (conv3x3_final3 (decoder_depth2 m)) = 1"
      by (simp add: ModelDeepLabV3PlusBranchedSA_init_def assms ab aspp dd sa1 sa2 d2 ds d1)
  qed
qed

text \<open>
  The claim as stated fails: an \<open>outputs_desc\<close> of three tasks, one of a single task and
  one of two tasks with ten channels each are not well-formed, and the constructor accepts
  all three.
\<close>

theorem ModelDeepLabV3PlusBranchedSA_init_counterexample:
  "\<not> outputs_desc_wellformed [(''semseg'', 19), (''depth'', 1), (''normals'', 3)] \<and>
   \<not> isl (ModelDeepLabV3PlusBranchedSA_init [] \<lparr>model_encoder_name = ''resnet34''\<rparr>
            [(''semseg'', 19), (''depth'', 1), (''normals'', 3)] (\<lambda>k n c i j. Fin 0)) \<and>
   \<not> outputs_desc_wellformed [(''semseg'', 20)] \<and>
   \<not> isl (ModelDeepLabV3PlusBranchedSA_init [] \<lparr>model_encoder_name = ''resnet34''\<rparr>
            [(''semseg'', 20)] (\<lambda>k n c i j. Fin 0)) \<and>
   \<not> outputs_desc_wellformed [(''semseg'', 10), (''depth'', 10)] \<and>
   \<not> isl (ModelDeepLabV3PlusBranchedSA_init [] \<lparr>model_encoder_name = ''resnet34''\<rparr>
            [(''semseg'', 10), (''depth'', 10)] (\<lambda>k n c i j. Fin 0))"
  by (simp add: outputs_desc_wellformed_def ModelDeepLabV3PlusBranchedSA_init_def
      Encoder_init_def Encoder_create_def basic_block_layers_def get_encoder_channel_counts_def
      ASPP_init_def init_defs DecoderDeeplabV3p_init_def SelfAttention_init_def
      DecoderDistillation_init_def)

theorem ModelDeepLabV3PlusBranchedSA_init_accepts_witness:
  "\<not> isl (Encoder_init [] ''resnet34'' [False, False, True]) \<and>
   ModelDeepLabV3PlusBranchedSA_init [] \<lparr>model_encoder_name = ''resnet34''\<rparr> [] (\<lambda>k n c i j. Fin 0)
     = Inl RuntimeError \<and>
   map_sum id (\<lambda>m. out_channels (features_to_predictions (decoder_semseg m)))
     (ModelDeepLabV3PlusBranchedSA_init [] \<lparr>model_encoder_name = ''resnet34''\<rparr>
        [(''semseg'', 19), (''depth'', 1), (''normals'', 3)] (\<lambda>k n c i j. Fin 0)) = Inr 22"
proof -
  obtain enc where enc: "Encoder_init [] (model_encoder_name \<lparr>model_encoder_name = ''resnet34''\<rparr>)
      [False, False, True] = Inr enc"
    by (simp add: Encoder_init_def Encoder_create_def basic_block_layers_def)
  from ModelDeepLabV3PlusBranchedSA_init_accepts [OF enc, of "[]" "\<lambda>k n c i j. Fin 0"]
       ModelDeepLabV3PlusBranchedSA_init_accepts [OF enc,
         of "[(''semseg'', 19), (''depth'', 1), (''normals'', 3)]" "\<lambda>k n c i j. Fin 0"]
       enc
  show ?thesis by auto
qed

subsection \<open>What DecoderDeeplabV3p returns\<close>

text \<open>
  Claim C2. Whatever the library's operations compute, when
  \<open>DecoderDeeplabV3p.forward\<close> returns, its second result is
  \<open>features_bottleneck_4x\<close>, the bottleneck features resized to the skip features' spatial
  size. That tensor is an input of the fusion; the fused tensor, the output of
  \<open>conv3x3_final\<close> on the concatenation, goes into the final projection and nowhere else.
  So the second result is not the fused pre-projection tensor that the claim, and the
  caller's name \<open>features_before_final_layer\<close> for it, describe.
\<close>

theorem DecoderDeeplabV3p_forward_second_result:
  assumes "DecoderDeeplabV3p_forward T m features_bottleneck features_skip_4x
             = Inr (predictions, features)"
  shows "F_interpolate T features_bottleneck (spatial (tensor_shape T features_skip_4x))
           = Inr features \<and>
         (\<exists>reduced cat fused.
            Sequential_forward T (conv1x1_skip m) features_skip_4x = Inr reduced \<and>
            torch_cat T [features, reduced] = Inr cat \<and>
            Sequential_forward T (conv3x3_final m) cat = Inr fused \<and>
            Conv2d_forward T (features_to_predictions m) fused = Inr predictions)"
  using assms
  by (auto simp: DecoderDeeplabV3p_forward_def bindE_eq_Inr)

text \<open>
  The symbolic run on a bottleneck of shape \<open>(1, 256, 8, 8)\<close> and skip features of shape
  \<open>(1, 64, 32, 32)\<close>: the predictions are computed from the fused tensor, the second
  result is the resized bottleneck.
\<close>

lemmas sym_defs = sym_sem_def sym_op_def layer_forward_def conv2d_shape_def batch_norm_shape_def
  interpolate_shape_def spatial_def

theorem DecoderDeeplabV3p_forward_second_result_witness:
  "\<not> isl (DecoderDeeplabV3p_init 256 64 19) \<and>
   DecoderDeeplabV3p_forward sym_sem (projr (DecoderDeeplabV3p_init 256 64 19))
       ((1, 256, 8, 8), ''features_bottleneck'') ((1, 64, 32, 32), ''features_skip_4x'')
     = Inr (((1, 19, 30, 30),
             ''conv(relu(bn(conv(cat(interpolate(features_bottleneck);relu(bn(conv(features_skip_4x)));)))))''),
            ((1, 256, 32, 32), ''interpolate(features_bottleneck)'')) \<and>
   F_interpolate sym_sem ((1, 256, 8, 8), ''features_bottleneck'') (32, 32)
     = Inr ((1, 256, 32, 32), ''interpolate(features_bottleneck)'')"
proof -
  obtain m where m: "DecoderDeeplabV3p_init 256 64 19 = Inr m"
    by (simp add: DecoderDeeplabV3p_init_def init_defs)
  have run: "DecoderDeeplabV3p_forward sym_sem m
       ((1, 256, 8, 8), ''features_bottleneck'') ((1, 64, 32, 32), ''features_skip_4x'')
     = Inr (((1, 19, 30, 30),
             ''conv(relu(bn(conv(cat(interpolate(features_bottleneck);relu(bn(conv(features_skip_4x)));)))))''),
            ((1, 256, 32, 32), ''interpolate(features_bottleneck)''))"
    using DecoderDeeplabV3p_init_Inr [OF m]
    by (simp add: DecoderDeeplabV3p_forward_def sym_defs)
  from DecoderDeeplabV3p_forward_second_result [OF run] run m
  show ?thesis
    by (simp add: sym_sem_def spatial_def)
qed

subsection \<open>Splitting the predictions by task\<close>

text \<open>Storing under a key that is not yet in the dictionary appends the item.\<close>

lemma update_fresh: "k \<notin> fst ` set al \<Longrightarrow> AList.update k v al = al @ [(k, v)]"
  by (induction al) auto

lemma split_loop_task_slices:
  "distinct (map fst od) \<Longrightarrow> fst ` set od \<inter> fst ` set out = {} \<Longrightarrow>
   split_loop od off ip fp out = out @ task_slices od off ip fp"
proof (induction od arbitrary: off out)
  case Nil
  then show ?case by simp
next
  case (Cons e od)
  obtain task num_ch where e: "e = (task, num_ch)" by (cases e)
  let ?v = "[py_slice ip off (off + num_ch), py_slice fp off (off + num_ch)]"
  have fresh: "task \<notin> fst ` set out"
    using Cons.prems(2) e by auto
  have "distinct (map fst od)"
    using Cons.prems(1) by simp
  moreover have "fst ` set od \<inter> fst ` set (out @ [(task, ?v)]) = {}"
    using Cons.prems e by auto
  ultimately have "split_loop od (off + num_ch) ip fp (out @ [(task, ?v)])
      = (out @ [(task, ?v)]) @ task_slices od (off + num_ch) ip fp"
    by (rule Cons.IH)
  then show ?case
    by (simp add: e update_fresh [OF fresh])
qed

text \<open>A slice with non-negative bounds \<open>a\<close> and \<open>a + n\<close> is \<open>n\<close> elements from position \<open>a\<close>.\<close>

lemma py_slice_nat:
  "0 \<le> a \<Longrightarrow> 0 \<le> n \<Longrightarrow> py_slice xs a (a + n) = take (nat n) (drop (nat a) xs)"
  by (auto simp: py_slice_def slice_bound_def Let_def min_def nat_add_distrib)

lemma concat_task_slices:
  "\<forall>e \<in> set od. 0 \<le> snd e \<Longrightarrow> 0 \<le> off \<Longrightarrow>
   concat (map (\<lambda>(task, pr). pr ! 1) (task_slices od off ip fp))
     = take (nat (sum_list (map snd od))) (drop (nat off) fp) \<and>
   concat (map (\<lambda>(task, pr). pr ! 0) (task_slices od off ip fp))
     = take (nat (sum_list (map snd od))) (drop (nat off) ip)"
proof (induction od arbitrary: off)
  case Nil
  then show ?case by simp
next
  case (Cons e od)
  obtain task n where e: "e = (task, n)" by (cases e)
  have n: "0 \<le> n" and rest: "\<forall>e \<in> set od. 0 \<le> snd e"
    using Cons.prems(1) e by auto
  have s: "0 \<le> sum_list (map snd od)"
    using rest by (intro sum_list_nonneg) auto
  have off': "0 \<le> off + n" using n Cons.prems(2) by simp
  note IH = Cons.IH [OF rest off']
  have t: "\<And>xs :: 'a list. take (nat n) (drop (nat off) xs) @ take (nat (sum_list (map snd od))) (drop (nat (off + n)) xs)
      = take (nat (n + sum_list (map snd od))) (drop (nat off) xs)"
    using n s Cons.prems(2)
    by (simp add: nat_add_distrib take_add add.commute)
  show ?case
    using IH t [of fp] t [of ip] n Cons.prems(2)
    by (simp add: e py_slice_nat)
qed

text \<open>
  Claim C5. Let \<open>outputs_desc\<close> be a dict (its task names are distinct) of non-negative
  channel counts, and let the two branches deliver what the constructor configured them
  for: \<open>ch_out - 1\<close> semseg channels and 1 depth channel, \<open>ch_out\<close> being the sum of the
  counts. Then the result has the tasks of \<open>outputs_desc\<close> in its order, the final
  slices (the second element of each pair) concatenated in that order are the concatenated
  final predictions, and the intermediate slices (the first element) are the concatenated
  intermediate predictions.
\<close>

theorem forward_outputs_roundtrip:
  assumes "distinct (map fst od)"
      and "\<forall>e \<in> set od. 0 \<le> snd e"
      and "int (length final_semseg) = sum_list (map snd od) - 1" "length final_depth = 1"
      and "int (length intermediate_semseg) = sum_list (map snd od) - 1"
          "length intermediate_depth = 1"
  shows "map fst (ModelDeepLabV3PlusBranchedSA_forward_outputs od intermediate_semseg intermediate_depth final_semseg final_depth)
           = map fst od \<and>
         concat (map (\<lambda>(task, pr). pr ! 1)
            (ModelDeepLabV3PlusBranchedSA_forward_outputs od intermediate_semseg intermediate_depth final_semseg final_depth))
           = final_semseg @ final_depth \<and>
         concat (map (\<lambda>(task, pr). pr ! 0)
            (ModelDeepLabV3PlusBranchedSA_forward_outputs od intermediate_semseg intermediate_depth final_semseg final_depth))
           = intermediate_semseg @ intermediate_depth"
proof -
  let ?ip = "intermediate_semseg @ intermediate_depth"
  let ?fp = "final_semseg @ final_depth"
  have out: "ModelDeepLabV3PlusBranchedSA_forward_outputs od intermediate_semseg intermediate_depth final_semseg final_depth
      = task_slices od 0 ?ip ?fp"
    using split_loop_task_slices [OF assms(1), of "[]" 0 ?ip ?fp]
    by (simp add: ModelDeepLabV3PlusBranchedSA_forward_outputs_def)
  have keys: "map fst (task_slices od off ?ip ?fp) = map fst od" for off
    by (induction od arbitrary: off) auto
  have lf: "nat (sum_list (map snd od)) = length ?fp"
    using assms(3,4) by simp
  have li: "nat (sum_list (map snd od)) = length ?ip"
    using assms(5,6) by simp
  note c = concat_task_slices [OF assms(2), of 0 ?ip ?fp]
  have cf: "concat (map (\<lambda>(task, pr). pr ! 1) (task_slices od 0 ?ip ?fp)) = ?fp"
    using c [THEN conjunct1] unfolding lf by simp
  have ci: "concat (map (\<lambda>(task, pr). pr ! 0) (task_slices od 0 ?ip ?fp)) = ?ip"
    using c [THEN conjunct2] unfolding li by simp
  show ?thesis
    unfolding out using keys cf ci by simp
qed

theorem forward_outputs_roundtrip_witness:
  "ModelDeepLabV3PlusBranchedSA_forward_outputs [(''semseg'', 2), (''depth'', 1)] [0, 1] [2] [10, 11] [12::nat]
     = [(''semseg'', [[0, 1], [10, 11]]), (''depth'', [[2], [12]])] \<and>
   concat (map (\<lambda>(task, pr). pr ! 1)
      (ModelDeepLabV3PlusBranchedSA_forward_outputs [(''semseg'', 2), (''depth'', 1)] [0, 1] [2] [10, 11] [12::nat]))
     = [10, 11, 12] \<and>
   concat (map (\<lambda>(task, pr). pr ! 0)
      (ModelDeepLabV3PlusBranchedSA_forward_outputs [(''semseg'', 2), (''depth'', 1)] [0, 1] [2] [10, 11] [12::nat]))
     = [0, 1, 2]"
proof -
  have e: "ModelDeepLabV3PlusBranchedSA_forward_outputs [(''semseg'', 2), (''depth'', 1)] [0, 1] [2] [10, 11] [12::nat]
     = [(''semseg'', [[0, 1], [10, 11]]), (''depth'', [[2], [12]])]"
    by (simp add: ModelDeepLabV3PlusBranchedSA_forward_outputs_def py_slice_def slice_bound_def)
  from forward_outputs_roundtrip [of "[(''semseg'', 2), (''depth'', 1)]" "[10, 11]" "[12::nat]" "[0, 1]" "[2]"]
  show ?thesis
    using e by simp
qed

subsection \<open>The pyramid of the encoder\<close>

lemma update_skip_dict_Inr:
  assumes "update_skip_dict T skips x sz_in = Inr skips'"
  shows "skips' = AList.update (sz_in div width (tensor_shape T x)) x skips"
  using assms by (auto simp: update_skip_dict_def Let_def split: if_splits)

lemmas enc_defs = Encoder_forward_def Encoder_features_def resnet18_dilated_def
  update_skip_dict_def shape_sem_def conv2d_shape_def batch_norm_shape_def width_def halve_def

lemma update_skip_dict_Inr_dvd:
  assumes "update_skip_dict T skips x sz_in = Inr skips'"
  shows "0 < width (tensor_shape T x) \<and> width (tensor_shape T x) dvd sz_in"
  using assms by (auto simp: update_skip_dict_def Let_def mod_eq_0_iff_dvd split: if_splits)

text \<open>
  Claim C8. An insertion into the pyramid stores the tensor under the key
  input-width divided by tensor-width, and only when that division is exact: with a
  remainder the insertion raises AssertionError, and when the tensor's width divides the
  input width the assertion does not fire. (A tensor of width 0 raises ZeroDivisionError
  before the assertion.) So when \<open>Encoder.forward\<close> returns, every stage output has a
  positive width that divides the input width, and its scale is a key of the pyramid;
  otherwise the forward pass has failed at the first insertion whose division is not exact.
\<close>

theorem update_skip_dict_exact_scale:
  "(\<not> width (tensor_shape T x) dvd sz_in \<longrightarrow> isl (update_skip_dict T skips x sz_in)) \<and>
   (0 < width (tensor_shape T x) \<and> \<not> width (tensor_shape T x) dvd sz_in \<longrightarrow>
      update_skip_dict T skips x sz_in = Inl AssertionError) \<and>
   (width (tensor_shape T x) dvd sz_in \<longrightarrow>
      update_skip_dict T skips x sz_in \<noteq> Inl AssertionError) \<and>
   (0 < width (tensor_shape T x) \<and> width (tensor_shape T x) dvd sz_in \<longrightarrow>
      update_skip_dict T skips x sz_in
        = Inr (AList.update (sz_in div width (tensor_shape T x)) x skips)) \<and>
   (Encoder_forward T net x0 = Inr out \<longrightarrow>
      (\<exists>xs. Encoder_features net x0 = Inr xs \<and>
         (\<forall>t \<in> set xs.
            0 < width (tensor_shape T t) \<and>
            width (tensor_shape T t) dvd width (tensor_shape T x0) \<and>
            width (tensor_shape T x0) div width (tensor_shape T t) \<in> fst ` set out)))"
proof -
  let ?sz = "width (tensor_shape T x0)"
  have ins: "(\<not> width (tensor_shape T x) dvd sz_in \<longrightarrow> isl (update_skip_dict T skips x sz_in)) \<and>
   (0 < width (tensor_shape T x) \<and> \<not> width (tensor_shape T x) dvd sz_in \<longrightarrow>
      update_skip_dict T skips x sz_in = Inl AssertionError) \<and>
   (width (tensor_shape T x) dvd sz_in \<longrightarrow>
      update_skip_dict T skips x sz_in \<noteq> Inl AssertionError) \<and>
   (0 < width (tensor_shape T x) \<and> width (tensor_shape T x) dvd sz_in \<longrightarrow>
      update_skip_dict T skips x sz_in
        = Inr (AList.update (sz_in div width (tensor_shape T x)) x skips))"
    by (auto simp: update_skip_dict_def Let_def mod_eq_0_iff_dvd)
  have fwd: "\<exists>xs. Encoder_features net x0 = Inr xs \<and>
         (\<forall>t \<in> set xs.
            0 < width (tensor_shape T t) \<and>
            width (tensor_shape T t) dvd ?sz \<and>
            ?sz div width (tensor_shape T t) \<in> fst ` set out)"
    if run: "Encoder_forward T net x0 = Inr out"
  proof -
    from run obtain y1 y2 x1 x2 x3 x4 x5 x6 o1 o2 o3 o4 o5 where
      st: "conv1 net x0 = Inr y1" "bn1 net y1 = Inr y2" "relu net y2 = Inr x1"
          "maxpool net x1 = Inr x2" "layer1 net x2 = Inr x3" "layer2 net x3 = Inr x4"
          "layer3 net x4 = Inr x5" "layer4 net x5 = Inr x6"
      and up: "update_skip_dict T [(1, x0)] x1 ?sz = Inr o1"
          "update_skip_dict T o1 x2 ?sz = Inr o2"
          "update_skip_dict T o2 x3 ?sz = Inr o3"
          "update_skip_dict T o3 x4 ?sz = Inr o4"
          "update_skip_dict T o4 x5 ?sz = Inr o5"
          "update_skip_dict T o5 x6 ?sz = Inr out"
      unfolding Encoder_forward_def Let_def bindE_eq_Inr by blast
    note u = up [THEN update_skip_dict_Inr]
    note dv = up [THEN update_skip_dict_Inr_dvd]
    have f: "Encoder_features net x0 = Inr [x1, x2, x3, x4, x5, x6]"
      by (simp add: Encoder_features_def st)
    have keys: "?sz div width (tensor_shape T t) \<in> fst ` set out"
      if "t \<in> set [x1, x2, x3, x4, x5, x6]" for t
      using that unfolding u by (auto simp: dom_update)
    show ?thesis
      using f dv keys by auto
  qed
  show ?thesis
    using ins fwd by blast
qed

theorem update_skip_dict_exact_scale_witness:
  "update_skip_dict shape_sem [(1, (1, 3, 64, 64))] (1, 64, 32, 32) 64
     = Inr [(1, (1, 3, 64, 64)), (2, (1, 64, 32, 32))] \<and>
   update_skip_dict shape_sem [(1, (1, 3, 65, 65))] (1, 64, 32, 32) 65 = Inl AssertionError \<and>
   \<not> isl (Encoder_forward shape_sem resnet18_dilated (1, 3, 64, 64)) \<and>
   map fst (projr (Encoder_forward shape_sem resnet18_dilated (1, 3, 64, 64))) = [1, 2, 4, 8, 16] \<and>
   Encoder_forward shape_sem resnet18_dilated (1, 3, 100, 100) = Inl AssertionError"
proof -
  have run: "Encoder_forward shape_sem resnet18_dilated (1, 3, 64, 64)
     = Inr [(1, (1, 3, 64, 64)), (2, (1, 64, 32, 32)), (4, (1, 64, 16, 16)),
            (8, (1, 128, 8, 8)), (16, (1, 512, 4, 4))]"
    by (simp add: enc_defs)
  have bad: "Encoder_forward shape_sem resnet18_dilated (1, 3, 100, 100) = Inl AssertionError"
    by (simp add: enc_defs)
  from update_skip_dict_exact_scale [of shape_sem "(1, 64, 32, 32)" 64 "[(1, (1, 3, 64, 64))]"
         resnet18_dilated "(1, 3, 64, 64)"
         "[(1, (1, 3, 64, 64)), (2, (1, 64, 32, 32)), (4, (1, 64, 16, 16)),
            (8, (1, 128, 8, 8)), (16, (1, 512, 4, 4))]"]
       update_skip_dict_exact_scale [of shape_sem "(1, 64, 32, 32)" 65 "[(1, (1, 3, 65, 65))]"]
  show ?thesis
    using run bad by (simp add: shape_sem_def width_def)
qed

text \<open>
  Claim C10. When \<open>Encoder.forward\<close> returns, no scale key occurs twice in the pyramid,
  and the pyramid maps every scale \<open>k\<close> to the last of the stage outputs whose downscale
  factor is \<open>k\<close>: where two stages, successive or not, produce tensors at one scale, the
  later tensor has replaced the earlier one. A scale that no stage output has is absent,
  except for the key 1 of the input itself.
\<close>

theorem Encoder_forward_deepest:
  assumes "Encoder_forward T net x0 = Inr out"
  shows "distinct (map fst out) \<and>
         (\<exists>xs. Encoder_features net x0 = Inr xs \<and>
            (\<forall>k. map_of out k =
               (case last_at_scale T (width (tensor_shape T x0)) k xs of
                  Some t \<Rightarrow> Some t
                | None \<Rightarrow> if k = 1 then Some x0 else None)))"
proof -
  let ?sz = "width (tensor_shape T x0)"
  from assms obtain y1 y2 x1 x2 x3 x4 x5 x6 o1 o2 o3 o4 o5 where
    st: "conv1 net x0 = Inr y1" "bn1 net y1 = Inr y2" "relu net y2 = Inr x1"
        "maxpool net x1 = Inr x2" "layer1 net x2 = Inr x3" "layer2 net x3 = Inr x4"
        "layer3 net x4 = Inr x5" "layer4 net x5 = Inr x6"
    and up: "update_skip_dict T [(1, x0)] x1 ?sz = Inr o1"
        "update_skip_dict T o1 x2 ?sz = Inr o2"
        "update_skip_dict T o2 x3 ?sz = Inr o3"
        "update_skip_dict T o3 x4 ?sz = Inr o4"
        "update_skip_dict T o4 x5 ?sz = Inr o5"
        "update_skip_dict T o5 x6 ?sz = Inr out"
    unfolding Encoder_forward_def Let_def bindE_eq_Inr by blast
  note u = up [THEN update_skip_dict_Inr]
  have d: "distinct (map fst out)"
    unfolding u by (simp add: distinct_update)
  have f: "Encoder_features net x0 = Inr [x1, x2, x3, x4, x5, x6]"
    by (simp add: Encoder_features_def st)
  have m: "map_of out k =
      (case last_at_scale T ?sz k [x1, x2, x3, x4, x5, x6] of
         Some t \<Rightarrow> Some t | None \<Rightarrow> if k = 1 then Some x0 else None)" for k
    unfolding u by (simp add: update_conv')
  show ?thesis
    using d f m by simp
qed

text \<open>
  On a 64x64 input the dilated ResNet-18 computes scale 4 twice (maxpool, layer1) and scale
  16 twice (layer3 with 256 channels, layer4 with 512): the pyramid has one entry for each,
  and the entry for 16 is the output of layer4.
\<close>

theorem Encoder_forward_deepest_witness:
  "Encoder_forward shape_sem resnet18_dilated (1, 3, 64, 64)
     = Inr [(1, (1, 3, 64, 64)), (2, (1, 64, 32, 32)), (4, (1, 64, 16, 16)),
            (8, (1, 128, 8, 8)), (16, (1, 512, 4, 4))] \<and>
   Encoder_features resnet18_dilated (1, 3, 64, 64)
     = Inr [(1, 64, 32, 32), (1, 64, 16, 16), (1, 64, 16, 16), (1, 128, 8, 8),
            (1, 256, 4, 4), (1, 512, 4, 4)] \<and>
   map_of (projr (Encoder_forward shape_sem resnet18_dilated (1, 3, 64, 64))) 16
     = Some (1, 512, 4, 4)"
proof -
  have run: "Encoder_forward shape_sem resnet18_dilated (1, 3, 64, 64)
     = Inr [(1, (1, 3, 64, 64)), (2, (1, 64, 32, 32)), (4, (1, 64, 16, 16)),
            (8, (1, 128, 8, 8)), (16, (1, 512, 4, 4))]"
    by (simp add: enc_defs)
  have feats: "Encoder_features resnet18_dilated (1, 3, 64, 64)
     = Inr [(1, 64, 32, 32), (1, 64, 16, 16), (1, 64, 16, 16), (1, 128, 8, 8),
            (1, 256, 4, 4), (1, 512, 4, 4)]"
    by (simp add: enc_defs)
  from Encoder_forward_deepest [OF run] feats run
  show ?thesis
    by (simp add: shape_sem_def width_def)
qed

end
